theory Spec2Isabelle
  imports Complex_Main "HOL-Library.Word" "HOL-Library.Log_Nat" "HOL-Library.Code_Target_Numeral"
begin

section \<open>Strings\<close>

text \<open>
  A JavaScript string is a sequence of UTF-16 code units. ASCII literals of the source are
  written \<open>lit ''...''\<close>; the Japanese messages of the checkout page are given as
  their code units.
\<close>

type_synonym jschar = "16 word"
type_synonym jsstring = "jschar list"

definition lit :: "string \<Rightarrow> jsstring" where
  "lit s = map (\<lambda>c. of_char c) s"

text \<open>White space and line terminators of ECMAScript, as removed by \<open>String.prototype.trim\<close>.\<close>

definition isWhiteSpace :: "jschar \<Rightarrow> bool" where
  "isWhiteSpace c \<longleftrightarrow>
     c = 0x09 \<or> c = 0x0A \<or> c = 0x0B \<or> c = 0x0C \<or> c = 0x0D \<or> c = 0x20 \<or> c = 0xA0 \<or>
     c = 0x1680 \<or> (0x2000 \<le> c \<and> c \<le> 0x200A) \<or> c = 0x2028 \<or> c = 0x2029 \<or>
     c = 0x202F \<or> c = 0x205F \<or> c = 0x3000 \<or> c = 0xFEFF"

definition trim :: "jsstring \<Rightarrow> jsstring" where
  "trim s = rev (dropWhile isWhiteSpace (rev (dropWhile isWhiteSpace s)))"

definition isDigit :: "jschar \<Rightarrow> bool" where
  "isDigit c \<longleftrightarrow> 0x30 \<le> c \<and> c \<le> 0x39"

text \<open>\<open>s.startsWith(p)\<close>\<close>

definition startsWith :: "jsstring \<Rightarrow> jsstring \<Rightarrow> bool" where
  "startsWith s p \<longleftrightarrow> take (length p) s = p"

section \<open>Numbers\<close>

text \<open>
  A JavaScript number is an IEEE 754 binary64 value: NaN, an infinity, or a finite value,
  held here as the rational it denotes (the two zeros are identified: the program never
  divides by zero and never inspects the sign of zero). Every arithmetic operation computes
  the exact rational result and rounds it to the nearest binary64 value, ties to even
  (\<open>rnd\<close>), overflowing to an infinity.
\<close>

datatype jsnum = NaN | PosInf | NegInf | Fin rat

definition pow2 :: "int \<Rightarrow> rat" where
  "pow2 k = (if 0 \<le> k then 2 ^ nat k else 1 / 2 ^ nat (- k))"

text \<open>\<open>ilog2 a\<close> is the exponent \<open>e\<close> with \<open>2^e \<le> a < 2^(e+1)\<close>, for \<open>a > 0\<close>.\<close>

definition ilog2 :: "rat \<Rightarrow> int" where
  "ilog2 a = (if 1 \<le> a then int (floorlog 2 (nat \<lfloor>a\<rfloor>)) - 1
              else - int (floorlog 2 (nat (\<lceil>1 / a\<rceil> - 1))))"

definition round_half_even :: "rat \<Rightarrow> int" where
  "round_half_even q =
     (let f = \<lfloor>q\<rfloor>; d = q - of_int f in
      if d < 1 / 2 then f else if 1 / 2 < d then f + 1 else if even f then f else f + 1)"

text \<open>
  Rounding to binary64: 53 significant bits, least exponent \<open>-1022\<close> (below it the
  spacing stays \<open>2^-1074\<close>: the subnormal numbers), overflow from \<open>2^1024\<close>.
\<close>

definition rnd :: "rat \<Rightarrow> jsnum" where
  "rnd x =
     (if x = 0 then Fin 0
      else
        let a = \<bar>x\<bar>;
            e = max (ilog2 a) (- 1022);
            u = pow2 (e - 52);
            r = of_int (round_half_even (a / u)) * u
        in if 2 ^ 1024 \<le> r then (if 0 < x then PosInf else NegInf)
           else Fin (if 0 < x then r else - r))"

fun fneg :: "jsnum \<Rightarrow> jsnum" where
  "fneg NaN = NaN"
| "fneg PosInf = NegInf"
| "fneg NegInf = PosInf"
| "fneg (Fin a) = Fin (- a)"

fun fadd :: "jsnum \<Rightarrow> jsnum \<Rightarrow> jsnum" where
  "fadd NaN _ = NaN"
| "fadd _ NaN = NaN"
| "fadd (Fin a) (Fin b) = rnd (a + b)"
| "fadd PosInf NegInf = NaN"
| "fadd NegInf PosInf = NaN"
| "fadd PosInf _ = PosInf"
| "fadd NegInf _ = NegInf"
| "fadd _ PosInf = PosInf"
| "fadd _ NegInf = NegInf"

definition fsub :: "jsnum \<Rightarrow> jsnum \<Rightarrow> jsnum" where
  "fsub a b = fadd a (fneg b)"

text \<open>The sign of a number that is not NaN: \<open>-1\<close>, \<open>0\<close> or \<open>1\<close>.\<close>

fun fsign :: "jsnum \<Rightarrow> int" where
  "fsign NaN = 0"
| "fsign PosInf = 1"
| "fsign NegInf = - 1"
| "fsign (Fin a) = (if 0 < a then 1 else if a < 0 then - 1 else 0)"

definition signed_inf :: "int \<Rightarrow> jsnum" where
  "signed_inf s = (if s = 0 then NaN else if 0 < s then PosInf else NegInf)"

fun fmul :: "jsnum \<Rightarrow> jsnum \<Rightarrow> jsnum" where
  "fmul NaN _ = NaN"
| "fmul _ NaN = NaN"
| "fmul (Fin a) (Fin b) = rnd (a * b)"
| "fmul x y = signed_inf (fsign x * fsign y)"

text \<open>
  Division. A finite non-zero number divided by zero is an infinity whose sign depends on
  the sign of the zero, which is not tracked: the divisor zero is read as \<open>+0\<close>. Every
  division of the program is by the literal \<open>100\<close>.
\<close>

fun fdiv :: "jsnum \<Rightarrow> jsnum \<Rightarrow> jsnum" where
  "fdiv NaN _ = NaN"
| "fdiv _ NaN = NaN"
| "fdiv (Fin a) (Fin b) = (if b = 0 then signed_inf (fsign (Fin a)) else rnd (a / b))"
| "fdiv (Fin a) _ = Fin 0"
| "fdiv x (Fin b) = signed_inf (fsign x * (if b < 0 then - 1 else 1))"
| "fdiv _ _ = NaN"

text \<open>The comparisons \<open><\<close> and \<open>\<le>\<close>; any comparison with NaN is false.\<close>

fun jslt :: "jsnum \<Rightarrow> jsnum \<Rightarrow> bool" where
  "jslt NaN _ = False"
| "jslt _ NaN = False"
| "jslt (Fin a) (Fin b) = (a < b)"
| "jslt PosInf _ = False"
| "jslt _ NegInf = False"
| "jslt _ _ = True"

fun jsle :: "jsnum \<Rightarrow> jsnum \<Rightarrow> bool" where
  "jsle NaN _ = False"
| "jsle _ NaN = False"
| "jsle (Fin a) (Fin b) = (a \<le> b)"
| "jsle NegInf _ = True"
| "jsle _ PosInf = True"
| "jsle _ _ = False"

abbreviation jsgt :: "jsnum \<Rightarrow> jsnum \<Rightarrow> bool" where
  "jsgt a b \<equiv> jslt b a"

abbreviation jsge :: "jsnum \<Rightarrow> jsnum \<Rightarrow> bool" where
  "jsge a b \<equiv> jsle b a"

fun Number_isFinite :: "jsnum \<Rightarrow> bool" where
  "Number_isFinite (Fin _) = True"
| "Number_isFinite _ = False"

fun Number_isInteger :: "jsnum \<Rightarrow> bool" where
  "Number_isInteger (Fin a) = (of_int \<lfloor>a\<rfloor> = a)"
| "Number_isInteger _ = False"

text \<open>\<open>Math.round\<close>: the nearest integer, a tie going up.\<close>

fun Math_round :: "jsnum \<Rightarrow> jsnum" where
  "Math_round (Fin a) = Fin (of_int \<lfloor>a + 1 / 2\<rfloor>)"
| "Math_round x = x"

text \<open>\<open>Number.EPSILON\<close> is \<open>2^-52\<close>.\<close>

definition Number_EPSILON :: jsnum where
  "Number_EPSILON = Fin (1 / 2 ^ 52)"

section \<open>Values, exceptions and the platform\<close>

text \<open>
  A value of type \<open>unknown\<close>, as \<open>JSON.parse\<close> produces it or as the program builds
  it. An object is the list of its own properties, each name once.
\<close>

datatype jsval =
    Undefined
  | Null
  | Bool bool
  | Num jsnum
  | Str jsstring
  | Arr "jsval list"
  | Obj "(jsstring \<times> jsval) list"

text \<open>
  \<open>raw.k\<close> for a property name \<open>k\<close> of this program (\<open>productId\<close>, \<open>detail\<close>, ...):
  the own property of an object, \<open>undefined\<close> on anything else (none of the names is an
  index or a built-in property of an array or of a primitive).
\<close>

fun get_prop :: "jsval \<Rightarrow> jsstring \<Rightarrow> jsval" where
  "get_prop (Obj fs) k = (case map_of fs k of None \<Rightarrow> Undefined | Some v \<Rightarrow> v)"
| "get_prop _ k = Undefined"

text \<open>\<open>a ?? b\<close>\<close>

definition nullish :: "jsval \<Rightarrow> jsval \<Rightarrow> jsval" where
  "nullish a b = (if a = Undefined \<or> a = Null then b else a)"

text \<open>\<open>typeof v === "object"\<close>\<close>

fun typeof_object :: "jsval \<Rightarrow> bool" where
  "typeof_object Null = True"
| "typeof_object (Arr _) = True"
| "typeof_object (Obj _) = True"
| "typeof_object _ = False"

text \<open>
  What the program can throw or reject with: \<open>ApiError\<close> (status, body, message) of the
  request wrapper, and the errors of the platform (a \<open>TypeError\<close> of a coercion or of
  \<open>fetch\<close>, any other failure).
\<close>

datatype exn =
    ApiError nat jsval jsstring
  | TypeError
  | OtherError

text \<open>\<open>error instanceof ApiError\<close>\<close>

fun instanceof_ApiError :: "exn \<Rightarrow> bool" where
  "instanceof_ApiError (ApiError _ _ _) = True"
| "instanceof_ApiError _ = False"

text \<open>
  The primitives of the JavaScript platform that the program calls and that are not part
  of it are parameters of the model:
  \<^item> \<open>StringToNumber\<close>: \<open>Number(s)\<close> on a string;
  \<^item> \<open>ObjectToNumber\<close>: \<open>Number(v)\<close> on an array or object, which converts it to a
    primitive first and can throw a \<open>TypeError\<close>;
  \<^item> \<open>NumberToString\<close>: \<open>String(n)\<close>;
  \<^item> \<open>JSON_parse\<close>: \<open>None\<close> when \<open>JSON.parse\<close> throws a \<open>SyntaxError\<close>;
  \<^item> \<open>JSON_stringify\<close>.
\<close>

record platform =
  StringToNumber :: "jsstring \<Rightarrow> jsnum"
  ObjectToNumber :: "jsval \<Rightarrow> exn + jsnum"
  NumberToString :: "jsnum \<Rightarrow> jsstring"
  JSON_parse :: "jsstring \<Rightarrow> jsval option"
  JSON_stringify :: "jsval \<Rightarrow> jsstring"

text \<open>\<open>Number(v)\<close>\<close>

fun ToNumber :: "platform \<Rightarrow> jsval \<Rightarrow> exn + jsnum" where
  "ToNumber P Undefined = Inr NaN"
| "ToNumber P Null = Inr (Fin 0)"
| "ToNumber P (Bool b) = Inr (Fin (if b then 1 else 0))"
| "ToNumber P (Num n) = Inr n"
| "ToNumber P (Str s) = Inr (StringToNumber P s)"
| "ToNumber P v = ObjectToNumber P v"

text \<open>
  \<open>n.toFixed(2)\<close>: a number that is not finite, or is at least \<open>10^21\<close> in magnitude, is
  converted as \<open>String(n)\<close> does; otherwise the digits are those of the integer nearest to
  \<open>n * 100\<close> (the larger one on a tie), at least three of them, with the point before
  the last two.
\<close>

fun digit_char :: "nat \<Rightarrow> jschar" where
  "digit_char d = of_nat (48 + d)"

fun decimal_digits :: "nat \<Rightarrow> jsstring" where
  "decimal_digits n = (if n < 10 then [digit_char n] else decimal_digits (n div 10) @ [digit_char (n mod 10)])"

definition fixed2 :: "nat \<Rightarrow> jsstring" where
  "fixed2 n = decimal_digits (n div 100) @ lit ''.'' @ [digit_char (n mod 100 div 10), digit_char (n mod 10)]"

fun toFixed2 :: "platform \<Rightarrow> jsnum \<Rightarrow> jsstring" where
  "toFixed2 P (Fin a) =
     (if 10 ^ 21 \<le> \<bar>a\<bar> then NumberToString P (Fin a)
      else (if a < 0 then lit ''-'' else []) @ fixed2 (nat \<lfloor>\<bar>a\<bar> * 100 + 1 / 2\<rfloor>))"
| "toFixed2 P NaN = lit ''NaN''"
| "toFixed2 P PosInf = lit ''Infinity''"
| "toFixed2 P NegInf = lit ''-Infinity''"

section \<open>The browser\<close>

text \<open>
  The state outside the page: whether the code runs in a browser (\<open>window\<close> and
  \<open>window.localStorage\<close> exist), the local storage, and the custom events dispatched on
  \<open>window\<close> so far, latest last. The storage has no size limit: \<open>setItem\<close> always
  succeeds.
\<close>

record env =
  isBrowser :: bool
  localStorage :: "jsstring \<rightharpoonup> jsstring"
  dispatched :: "(jsstring \<times> jsval) list"

definition dispatchEvent :: "jsstring \<Rightarrow> jsval \<Rightarrow> env \<Rightarrow> env" where
  "dispatchEvent name detail e = e\<lparr>dispatched := dispatched e @ [(name, detail)]\<rparr>"

section \<open>The auth token store (\<open>store/useAuth.ts\<close>)\<close>

definition AUTH_STORAGE_KEY :: jsstring where
  "AUTH_STORAGE_KEY = lit ''pos.accessToken''"

definition getAccessToken :: "env \<Rightarrow> jsstring option" where
  "getAccessToken e = (if \<not> isBrowser e then None else localStorage e AUTH_STORAGE_KEY)"

text \<open>\<open>if (token)\<close> on a \<open>string | null\<close>: neither \<open>null\<close> nor the empty string.\<close>

fun truthy_token :: "jsstring option \<Rightarrow> bool" where
  "truthy_token None = False"
| "truthy_token (Some t) = (t \<noteq> [])"

text \<open>Sequencing of computations that can throw: the first exception ends the computation.\<close>

definition bindE :: "'e + 'a \<Rightarrow> ('a \<Rightarrow> 'e + 'b) \<Rightarrow> 'e + 'b" where
  "bindE m f = (case m of Inl x \<Rightarrow> Inl x | Inr a \<Rightarrow> f a)"

section \<open>The cart store (\<open>store/useCart.ts\<close>)\<close>

record CartItem =
  productId :: jsnum
  name :: jsstring
  quantity :: jsnum
  unitPrice :: jsnum
  sku :: "jsstring option"
  taxRate :: "jsnum option"

record CartTotals =
  subtotal :: jsnum
  tax :: jsnum
  total' :: jsnum

definition CART_STORAGE_KEY :: jsstring where
  "CART_STORAGE_KEY = lit ''pos.cart''"

definition CART_EVENT :: jsstring where
  "CART_EVENT = lit ''pos-cart-changed''"

text \<open>
  \<open>Math.round((value + Number.EPSILON) * 100) / 100\<close>. The checkout page declares the
  same function under the same name.
\<close>

definition roundCurrency :: "jsnum \<Rightarrow> jsnum" where
  "roundCurrency v = fdiv (Math_round (fmul (fadd v Number_EPSILON) (Fin 100))) (Fin 100)"

text \<open>
  \<open>sanitizeCartItem\<close> returns a cart item or \<open>null\<close> (\<open>None\<close>), unless one of its
  coercions throws. The three \<open>Number(...)\<close> calls come first, in the order of the source.
\<close>

definition sanitizeCartItem :: "platform \<Rightarrow> jsval \<Rightarrow> exn + CartItem option" where
  "sanitizeCartItem P input =
     (if \<not> typeof_object input \<or> input = Null then Inr None
      else
        let raw = input in
        bindE (ToNumber P (nullish (get_prop raw (lit ''productId'')) (get_prop raw (lit ''product_id''))))
          (\<lambda>productId.
        bindE (ToNumber P (get_prop raw (lit ''quantity'')))
          (\<lambda>quantity.
        bindE (ToNumber P (nullish (nullish (get_prop raw (lit ''unitPrice''))
                                      (get_prop raw (lit ''unit_price'')))
                             (get_prop raw (lit ''price''))))
          (\<lambda>unitPrice.
        let nameValue = nullish (get_prop raw (lit ''name'')) (get_prop raw (lit ''productName''));
            skuValue = nullish (get_prop raw (lit ''sku'')) (get_prop raw (lit ''productSku''));
            taxRateRaw = nullish (get_prop raw (lit ''taxRate'')) (get_prop raw (lit ''tax_rate''))
        in
        if \<not> Number_isInteger productId \<or> jsle productId (Fin 0) then Inr None
        else if \<not> Number_isFinite quantity \<or> jsle quantity (Fin 0) then Inr None
        else if \<not> Number_isFinite unitPrice then Inr None
        else
          let name = (case nameValue of Str s \<Rightarrow> s | _ \<Rightarrow> []);
              sku = (case skuValue of Str s \<Rightarrow> Some s | _ \<Rightarrow> None)
          in
          bindE (if taxRateRaw \<noteq> Undefined
                 then bindE (ToNumber P taxRateRaw)
                        (\<lambda>n. if Number_isFinite n then bindE (ToNumber P taxRateRaw) (\<lambda>m. Inr (Some m))
                             else Inr None)
                 else Inr None)
            (\<lambda>taxRate.
          Inr (Some \<lparr>productId = productId, name = name, quantity = quantity,
                     unitPrice = unitPrice, sku = sku, taxRate = taxRate\<rparr>))))))"

text \<open>A cart item as the object that \<open>JSON.stringify\<close> and the change event receive.\<close>

definition CartItem_js :: "CartItem \<Rightarrow> jsval" where
  "CartItem_js it =
     Obj [(lit ''productId'', Num (productId it)),
          (lit ''name'', Str (name it)),
          (lit ''quantity'', Num (quantity it)),
          (lit ''unitPrice'', Num (unitPrice it)),
          (lit ''sku'', case sku it of None \<Rightarrow> Undefined | Some s \<Rightarrow> Str s),
          (lit ''taxRate'', case taxRate it of None \<Rightarrow> Undefined | Some t \<Rightarrow> Num t)]"

definition emitCartChange :: "CartItem list \<Rightarrow> env \<Rightarrow> env" where
  "emitCartChange items e =
     (if \<not> isBrowser e then e else dispatchEvent CART_EVENT (Arr (map CartItem_js items)) e)"

text \<open>\<open>parsed.map((item) => sanitizeCartItem(item))\<close>, stopped by the first exception.\<close>

fun sanitize_map :: "platform \<Rightarrow> jsval list \<Rightarrow> exn + CartItem option list" where
  "sanitize_map P [] = Inr []"
| "sanitize_map P (x # xs) =
     bindE (sanitizeCartItem P x) (\<lambda>y. bindE (sanitize_map P xs) (\<lambda>ys. Inr (y # ys)))"

text \<open>\<open>.filter((item) => Boolean(item))\<close>\<close>

fun filter_Boolean :: "CartItem option list \<Rightarrow> CartItem list" where
  "filter_Boolean [] = []"
| "filter_Boolean (None # ys) = filter_Boolean ys"
| "filter_Boolean (Some it # ys) = it # filter_Boolean ys"

definition readCartItems :: "platform \<Rightarrow> env \<Rightarrow> CartItem list" where
  "readCartItems P e =
     (if \<not> isBrowser e then []
      else
        case localStorage e CART_STORAGE_KEY of
          None \<Rightarrow> []
        | Some rawValue \<Rightarrow>
            if rawValue = [] then []
            else
              (case JSON_parse P rawValue of
                 None \<Rightarrow> []
               | Some parsed \<Rightarrow>
                   (case parsed of
                      Arr xs \<Rightarrow>
                        (case sanitize_map P xs of
                           Inl _ \<Rightarrow> []
                         | Inr ys \<Rightarrow> filter_Boolean ys)
                    | _ \<Rightarrow> [])))"

definition writeCartItems :: "platform \<Rightarrow> CartItem list \<Rightarrow> env \<Rightarrow> env" where
  "writeCartItems P items e =
     (if \<not> isBrowser e then e
      else
        emitCartChange items
          (e\<lparr>localStorage :=
               (localStorage e)(CART_STORAGE_KEY \<mapsto> JSON_stringify P (Arr (map CartItem_js items)))\<rparr>))"

definition clearCartItems :: "env \<Rightarrow> env" where
  "clearCartItems e =
     (if \<not> isBrowser e then e
      else emitCartChange [] (e\<lparr>localStorage := (localStorage e)(CART_STORAGE_KEY := None)\<rparr>))"

text \<open>\<open>items.reduce(callback, initialValue)\<close>: the callback applied from the first element on.\<close>

fun reduce :: "('b \<Rightarrow> 'a \<Rightarrow> 'b) \<Rightarrow> 'b \<Rightarrow> 'a list \<Rightarrow> 'b" where
  "reduce f acc [] = acc"
| "reduce f acc (x # xs) = reduce f (f acc x) xs"

definition calculateCartTotals :: "CartItem list \<Rightarrow> CartTotals" where
  "calculateCartTotals items =
     reduce
       (\<lambda>accumulator item.
          let lineSubtotal = roundCurrency (fmul (unitPrice item) (quantity item));
              lineTax = roundCurrency
                          (fmul lineSubtotal
                             (fdiv (case taxRate item of None \<Rightarrow> Fin 0 | Some t \<Rightarrow> t) (Fin 100)))
          in \<lparr>subtotal = roundCurrency (fadd (subtotal accumulator) lineSubtotal),
              tax = roundCurrency (fadd (tax accumulator) lineTax),
              total' = roundCurrency (fadd (fadd (total' accumulator) lineSubtotal) lineTax)\<rparr>)
       \<lparr>subtotal = Fin 0, tax = Fin 0, total' = Fin 0\<rparr>
       items"

section \<open>The request wrapper (\<open>libs/api.ts\<close>)\<close>

text \<open>
  A \<open>Headers\<close> object: a map from header names to values. Names are case-insensitive, so
  the map is keyed by the lower-case name. The \<open>headers\<close> option of the caller is taken as
  such an object, which \<open>new Headers(...)\<close> copies.
\<close>

type_synonym headers = "jsstring \<rightharpoonup> jsstring"

definition lower_ascii :: "jschar \<Rightarrow> jschar" where
  "lower_ascii c = (if 0x41 \<le> c \<and> c \<le> 0x5A then c + 0x20 else c)"

definition header_name :: "jsstring \<Rightarrow> jsstring" where
  "header_name n = map lower_ascii n"

text \<open>
  \<open>headers.set(name, value)\<close>, as the Fetch standard defines it. Name and value are byte
  strings: a code unit above \<open>0xFF\<close> is a \<open>TypeError\<close>. The value is normalised: HTTP
  white space (tab, line feed, carriage return, space) is stripped from both ends. Then
  the name must be a token, and the value must neither begin nor end with a tab or a
  space nor hold a NUL, a line feed or a carriage return, or the call throws a
  \<open>TypeError\<close>.
\<close>

definition isHTTPWhitespace :: "jschar \<Rightarrow> bool" where
  "isHTTPWhitespace c \<longleftrightarrow> c = 0x09 \<or> c = 0x0A \<or> c = 0x0D \<or> c = 0x20"

definition normalize_value :: "jsstring \<Rightarrow> jsstring" where
  "normalize_value v = rev (dropWhile isHTTPWhitespace (rev (dropWhile isHTTPWhitespace v)))"

definition isByteString :: "jsstring \<Rightarrow> bool" where
  "isByteString v \<longleftrightarrow> list_all (\<lambda>c. c \<le> 0xFF) v"

definition isTokenChar :: "jschar \<Rightarrow> bool" where
  "isTokenChar c \<longleftrightarrow>
     (0x30 \<le> c \<and> c \<le> 0x39) \<or> (0x41 \<le> c \<and> c \<le> 0x5A) \<or> (0x61 \<le> c \<and> c \<le> 0x7A) \<or>
     c = 0x21 \<or> c = 0x23 \<or> c = 0x24 \<or> c = 0x25 \<or> c = 0x26 \<or> c = 0x27 \<or> c = 0x2A \<or>
     c = 0x2B \<or> c = 0x2D \<or> c = 0x2E \<or> c = 0x5E \<or> c = 0x5F \<or> c = 0x60 \<or> c = 0x7C \<or>
     c = 0x7E"

definition isHeaderName :: "jsstring \<Rightarrow> bool" where
  "isHeaderName n \<longleftrightarrow> n \<noteq> [] \<and> list_all isTokenChar n"

definition isTabOrSpace :: "jschar \<Rightarrow> bool" where
  "isTabOrSpace c \<longleftrightarrow> c = 0x09 \<or> c = 0x20"

definition isHeaderValue :: "jsstring \<Rightarrow> bool" where
  "isHeaderValue v \<longleftrightarrow>
     (v = [] \<or> (\<not> isTabOrSpace (hd v) \<and> \<not> isTabOrSpace (last v))) \<and>
     list_all (\<lambda>c. c \<noteq> 0x00 \<and> c \<noteq> 0x0A \<and> c \<noteq> 0x0D) v"

definition Headers_set :: "headers \<Rightarrow> jsstring \<Rightarrow> jsstring \<Rightarrow> exn + headers" where
  "Headers_set h n v =
     (if \<not> isByteString n \<or> \<not> isByteString v then Inl TypeError
      else
        let value = normalize_value v in
        if \<not> isHeaderName n \<or> \<not> isHeaderValue value then Inl TypeError
        else Inr (h(header_name n \<mapsto> value)))"

text \<open>Whether \<open>headers.set\<close> accepts a value, for a name that it accepts.\<close>

definition header_value_accepted :: "jsstring \<Rightarrow> bool" where
  "header_value_accepted v \<longleftrightarrow> isByteString v \<and> isHeaderValue (normalize_value v)"

definition Headers_has :: "headers \<Rightarrow> jsstring \<Rightarrow> bool" where
  "Headers_has h n \<longleftrightarrow> h (header_name n) \<noteq> None"


text \<open>A request body: a string, or something else (a \<open>Blob\<close>, a \<open>FormData\<close>, ...).\<close>

datatype body = StringBody jsstring | OtherBody

text \<open>
  \<open>ApiFetchOptions\<close>: the \<open>auth\<close> flag (\<open>None\<close> when omitted), the caller's headers and
  body, and of the remaining \<open>RequestInit\<close> options the method.
\<close>

record ApiFetchOptions =
  auth :: "bool option"
  headers :: "headers option"
  body :: "body option"
  http_method :: "jsstring option"

text \<open>The argument of \<open>fetch\<close>.\<close>

record request =
  req_url :: jsstring
  req_method :: "jsstring option"
  req_headers :: headers
  req_body :: "body option"

text \<open>
  What \<open>fetch\<close> and \<open>response.text()\<close> deliver: a rejection, or a response with its
  status, status text and body text. \<open>response.ok\<close> holds for a status from 200 to 299.
\<close>

record response =
  status :: nat
  statusText :: jsstring
  body_text :: jsstring

datatype fetch_outcome = Rejected exn | Responded response

definition response_ok :: "response \<Rightarrow> bool" where
  "response_ok r \<longleftrightarrow> 200 \<le> status r \<and> status r \<le> 299"

text \<open>\<open>new ApiError(status, body, message)\<close>, with the default message of the constructor.\<close>

definition new_ApiError :: "platform \<Rightarrow> nat \<Rightarrow> jsval \<Rightarrow> jsstring option \<Rightarrow> exn" where
  "new_ApiError P st b message =
     ApiError st b
       (case message of
          Some m \<Rightarrow> m
        | None \<Rightarrow> lit ''Request failed with status '' @ NumberToString P (Fin (of_nat st)))"

text \<open>\<open>new Headers(headers ?? undefined)\<close>: a copy of the caller's headers, empty when the
  option is omitted.\<close>

definition new_Headers :: "headers option \<Rightarrow> headers" where
  "new_Headers init = (case init of None \<Rightarrow> Map.empty | Some h \<Rightarrow> h)"

text \<open>
  The headers that \<open>apiFetch\<close> builds, unless \<open>headers.set\<close> throws. \<open>API_BASE_URL\<close> is
  the configured base, a parameter.
\<close>

definition apiFetch_headers :: "env \<Rightarrow> ApiFetchOptions \<Rightarrow> exn + headers" where
  "apiFetch_headers e options =
     (let finalHeaders = new_Headers (headers options) in
      bindE (if (case auth options of None \<Rightarrow> True | Some a \<Rightarrow> a)
             then (let token = getAccessToken e in
                   if truthy_token token
                   then Headers_set finalHeaders (lit ''Authorization'') (lit ''Bearer '' @ the token)
                   else Inr finalHeaders)
             else Inr finalHeaders)
        (\<lambda>finalHeaders.
           case body options of
             Some (StringBody _) \<Rightarrow>
               if \<not> Headers_has finalHeaders (lit ''Content-Type'')
               then Headers_set finalHeaders (lit ''Content-Type'') (lit ''application/json'')
               else Inr finalHeaders
           | _ \<Rightarrow> Inr finalHeaders))"

text \<open>The request that \<open>apiFetch\<close> hands to \<open>fetch\<close>, when it gets that far.\<close>

definition apiFetch_request :: "jsstring \<Rightarrow> env \<Rightarrow> jsstring \<Rightarrow> ApiFetchOptions \<Rightarrow> exn + request" where
  "apiFetch_request API_BASE_URL e path options =
     (let normalizedPath = (if startsWith path (lit ''/'') then path else lit ''/'' @ path);
          url = API_BASE_URL @ normalizedPath
      in bindE (apiFetch_headers e options)
           (\<lambda>finalHeaders.
              Inr \<lparr>req_url = url, req_method = http_method options,
                   req_headers = finalHeaders, req_body = body options\<rparr>))"


text \<open>
  \<open>apiFetch\<close>: what the promise settles with, and the requests handed to \<open>fetch\<close> (none
  when building the headers throws, one otherwise).
\<close>

definition apiFetch ::
  "platform \<Rightarrow> jsstring \<Rightarrow> (request \<Rightarrow> fetch_outcome) \<Rightarrow> env \<Rightarrow> jsstring \<Rightarrow> ApiFetchOptions
     \<Rightarrow> (exn + jsval) \<times> request list" where
  "apiFetch P API_BASE_URL fetch e path options =
     (case apiFetch_request API_BASE_URL e path options of
        Inl x \<Rightarrow> (Inl x, [])
      | Inr req \<Rightarrow>
          (case fetch req of
             Rejected x \<Rightarrow> Inl x
           | Responded r \<Rightarrow>
               let responseText = body_text r in
               if \<not> response_ok r then
                 (let parsed =
                    (if responseText \<noteq> []
                     then (case JSON_parse P responseText of Some v \<Rightarrow> v | None \<Rightarrow> Str responseText)
                     else Null)
                  in Inl (new_ApiError P (status r) parsed (Some (statusText r))))
               else if responseText = [] then Inr Undefined
               else
                 (case JSON_parse P responseText of
                    Some v \<Rightarrow> Inr v
                  | None \<Rightarrow>
                      Inl (new_ApiError P (status r) (Str responseText)
                             (Some (lit ''Failed to parse response JSON'')))),
           [req]))"

section \<open>The checkout page (\<open>app/pos/page.tsx\<close>)\<close>

datatype PaymentMethod = Cash | Card | Qr | Other

fun PaymentMethod_text :: "PaymentMethod \<Rightarrow> jsstring" where
  "PaymentMethod_text Cash = lit ''cash''"
| "PaymentMethod_text Card = lit ''card''"
| "PaymentMethod_text Qr = lit ''qr''"
| "PaymentMethod_text Other = lit ''other''"

record OrderCreateItem =
  product_id :: jsnum
  item_quantity :: jsnum

record OrderCreatePayment =
  payment_method :: PaymentMethod
  amount :: jsstring

record OrderCreateRequest =
  order_items :: "OrderCreateItem list"
  order_payments :: "OrderCreatePayment list"
  order_memo :: "jsstring option"

text \<open>The payload as the object given to \<open>JSON.stringify\<close>.\<close>

definition OrderCreateRequest_js :: "OrderCreateRequest \<Rightarrow> jsval" where
  "OrderCreateRequest_js r =
     Obj ([(lit ''items'',
            Arr (map (\<lambda>i. Obj [(lit ''product_id'', Num (product_id i)),
                                (lit ''quantity'', Num (item_quantity i))]) (order_items r))),
           (lit ''payments'',
            Arr (map (\<lambda>p. Obj [(lit ''method'', Str (PaymentMethod_text (payment_method p))),
                                (lit ''amount'', Str (amount p))]) (order_payments r)))]
          @ (case order_memo r of None \<Rightarrow> [] | Some m \<Rightarrow> [(lit ''memo'', Str m)]))"

text \<open>The messages of the page, as UTF-16 code units.\<close>

definition MSG_CART_EMPTY :: jsstring where
  "MSG_CART_EMPTY =
     [0x30AB, 0x30FC, 0x30C8, 0x306B, 0x5546, 0x54C1, 0x304C, 0x3042, 0x308A, 0x307E, 0x305B,
      0x3093, 0x3002]"

definition MSG_NO_AUTH :: jsstring where
  "MSG_NO_AUTH =
     [0x8A8D, 0x8A3C, 0x60C5, 0x5831, 0x304C, 0x898B, 0x3064, 0x304B, 0x308A, 0x307E, 0x305B,
      0x3093, 0x3002, 0x30ED, 0x30B0, 0x30A4, 0x30F3, 0x3057, 0x76F4, 0x3057, 0x3066, 0x304F,
      0x3060, 0x3055, 0x3044, 0x3002]"

definition MSG_ENTER_AMOUNT :: jsstring where
  "MSG_ENTER_AMOUNT =
     [0x53D7, 0x9818, 0x91D1, 0x984D, 0x3092, 0x5165, 0x529B, 0x3057, 0x3066, 0x304F, 0x3060,
      0x3055, 0x3044, 0x3002]"

definition MSG_AMOUNT_POSITIVE :: jsstring where
  "MSG_AMOUNT_POSITIVE =
     [0x53D7, 0x9818, 0x91D1, 0x984D, 0x306F, 0x0030, 0x3088, 0x308A, 0x5927, 0x304D, 0x3044,
      0x5024, 0x306B, 0x3057, 0x3066, 0x304F, 0x3060, 0x3055, 0x3044, 0x3002]"

definition MSG_CHECKOUT_FAILED :: jsstring where
  "MSG_CHECKOUT_FAILED =
     [0x4F1A, 0x8A08, 0x51E6, 0x7406, 0x306B, 0x5931, 0x6557, 0x3057, 0x307E, 0x3057, 0x305F,
      0x3002]"

definition MSG_UNEXPECTED :: jsstring where
  "MSG_UNEXPECTED =
     [0x4E88, 0x671F, 0x305B, 0x306C, 0x30A8, 0x30E9, 0x30FC, 0x304C, 0x767A, 0x751F, 0x3057,
      0x307E, 0x3057, 0x305F, 0x3002]"

text \<open>\<open>/^-?\d*(\.\d{0,2})?$/.test(s)\<close>\<close>

definition money_pattern :: "jsstring \<Rightarrow> bool" where
  "money_pattern s =
     (let s1 = (case s of [] \<Rightarrow> [] | c # cs \<Rightarrow> if c = 0x2D then cs else s);
          s2 = dropWhile isDigit s1
      in case s2 of
           [] \<Rightarrow> True
         | c # cs \<Rightarrow> c = 0x2E \<and> length cs \<le> 2 \<and> list_all isDigit cs)"

definition parseMoney :: "platform \<Rightarrow> jsstring \<Rightarrow> jsnum option" where
  "parseMoney P input =
     (let trimmed = trim input in
      if trimmed = [] then None
      else
        let normalized = filter (\<lambda>c. c \<noteq> 0x2C) trimmed in
        if \<not> money_pattern normalized \<or> normalized = lit ''-'' \<or> normalized = lit ''.''
           \<or> normalized = lit ''-.''
        then
          (let numeric = StringToNumber P normalized in
           if Number_isFinite numeric
           then Some (fdiv (Math_round (fmul numeric (Fin 100))) (Fin 100))
           else None)
        else
          let numeric = StringToNumber P normalized in
          if \<not> Number_isFinite numeric then None
          else Some (fdiv (Math_round (fmul numeric (Fin 100))) (Fin 100)))"

text \<open>The state of the page component.\<close>

record page =
  cartItems :: "CartItem list"
  paymentMethod :: PaymentMethod
  receivedAmount :: jsstring
  memo :: jsstring
  isSubmitting :: bool
  errorMessage :: jsval
  orderResult :: jsval

text \<open>The derived values \<open>totals\<close>, \<open>parsedReceivedAmount\<close>, \<open>computedChange\<close>, \<open>shortage\<close>.\<close>

definition totals :: "page \<Rightarrow> CartTotals" where
  "totals pg = calculateCartTotals (cartItems pg)"

definition parsedReceivedAmount :: "platform \<Rightarrow> page \<Rightarrow> jsnum option" where
  "parsedReceivedAmount P pg = parseMoney P (receivedAmount pg)"

definition computedChange :: "jsnum option \<Rightarrow> jsnum \<Rightarrow> jsnum" where
  "computedChange parsed totals_total =
     (case parsed of
        None \<Rightarrow> Fin 0
      | Some received \<Rightarrow>
          let diff = fsub received totals_total in
          if jsgt diff (Fin 0) then roundCurrency diff else Fin 0)"

definition shortage :: "jsnum option \<Rightarrow> jsnum \<Rightarrow> jsnum" where
  "shortage parsed totals_total =
     (case parsed of
        None \<Rightarrow> Fin 0
      | Some received \<Rightarrow>
          if jsge received totals_total then Fin 0
          else roundCurrency (fsub totals_total received))"

text \<open>The payload of \<open>handleSubmit\<close>, built once the local checks have passed.\<close>

definition buildPayload :: "platform \<Rightarrow> page \<Rightarrow> jsnum \<Rightarrow> OrderCreateRequest" where
  "buildPayload P pg received =
     (let payload =
            \<lparr>order_items = map (\<lambda>item. \<lparr>product_id = productId item, item_quantity = quantity item\<rparr>)
                       (cartItems pg),
             order_payments = [\<lparr>payment_method = paymentMethod pg, amount = toFixed2 P received\<rparr>],
             order_memo = None\<rparr>;
          trimmedMemo = trim (memo pg)
      in if trimmedMemo \<noteq> [] then payload\<lparr>order_memo := Some trimmedMemo\<rparr> else payload)"

text \<open>The message set by the \<open>catch\<close> clause of \<open>handleSubmit\<close>.\<close>

definition catch_message :: "exn \<Rightarrow> jsval" where
  "catch_message error =
     (case error of
        ApiError st b m \<Rightarrow>
          (let detail =
                 (case b of
                    Str s \<Rightarrow> Str s
                  | _ \<Rightarrow> if b = Null \<or> b = Undefined then Undefined else get_prop b (lit ''detail''))
           in nullish detail (Str MSG_CHECKOUT_FAILED))
      | _ \<Rightarrow> Str MSG_UNEXPECTED)"

text \<open>The options of the call \<open>apiFetch("/orders", { method: "POST", body: JSON.stringify(payload) })\<close>.\<close>

definition order_options :: "platform \<Rightarrow> OrderCreateRequest \<Rightarrow> ApiFetchOptions" where
  "order_options P payload =
     \<lparr>auth = None, headers = None,
      body = Some (StringBody (JSON_stringify P (OrderCreateRequest_js payload))),
      http_method = Some (lit ''POST'')\<rparr>"

text \<open>
  \<open>handleSubmit\<close> as one step: from the page and the browser state to the page and the
  browser state when the handler has finished, with the requests that \<open>apiFetch\<close> handed
  to \<open>fetch\<close>.
\<close>

definition handleSubmit ::
  "platform \<Rightarrow> jsstring \<Rightarrow> (request \<Rightarrow> fetch_outcome) \<Rightarrow> env \<Rightarrow> page
     \<Rightarrow> page \<times> env \<times> request list" where
  "handleSubmit P API_BASE_URL fetch e pg0 =
     (let pg = pg0\<lparr>errorMessage := Null, orderResult := Null\<rparr> in
      if cartItems pg = [] then (pg\<lparr>errorMessage := Str MSG_CART_EMPTY\<rparr>, e, [])
      else
        let token = getAccessToken e in
        if \<not> truthy_token token then (pg\<lparr>errorMessage := Str MSG_NO_AUTH\<rparr>, e, [])
        else
          case parsedReceivedAmount P pg0 of
            None \<Rightarrow> (pg\<lparr>errorMessage := Str MSG_ENTER_AMOUNT\<rparr>, e, [])
          | Some received \<Rightarrow>
              if jsle received (Fin 0) then (pg\<lparr>errorMessage := Str MSG_AMOUNT_POSITIVE\<rparr>, e, [])
              else
                let payload = buildPayload P pg received;
                    pg = pg\<lparr>isSubmitting := True\<rparr>;
                    (settled, sent) =
                      apiFetch P API_BASE_URL fetch e (lit ''/orders'') (order_options P payload)
                in
                  (case settled of
                     Inr response \<Rightarrow>
                       (pg\<lparr>orderResult := response, cartItems := [], receivedAmount := [],
                           memo := [], isSubmitting := False\<rparr>,
                        clearCartItems e, sent)
                   | Inl error \<Rightarrow>
                       (pg\<lparr>errorMessage := catch_message error, isSubmitting := False\<rparr>, e, sent)))"

section \<open>Reference definitions\<close>

text \<open>
  The definitions of this section follow the words of the specification; the theorems
  compare them with the definitions above, which follow the source.
\<close>

text \<open>
  The branch-free reference for the received-amount parser: trim the input; if empty, no
  value; strip commas; coerce the remainder to a number; if finite, return it rounded to 2
  decimals, otherwise no value.
\<close>

definition parseMoney_reference :: "platform \<Rightarrow> jsstring \<Rightarrow> jsnum option" where
  "parseMoney_reference P input =
     (let trimmed = trim input in
      if trimmed = [] then None
      else
        let numeric = StringToNumber P (filter (\<lambda>c. c \<noteq> 0x2C) trimmed) in
        if Number_isFinite numeric then Some (fdiv (Math_round (fmul numeric (Fin 100))) (Fin 100))
        else None)"

text \<open>
  The step of the fold over the cart lines, for a given rounding to 2 decimals: round the
  line subtotal, round the line tax, then round each running sum after adding the line.
\<close>

definition totals_step :: "(jsnum \<Rightarrow> jsnum) \<Rightarrow> CartTotals \<Rightarrow> CartItem \<Rightarrow> CartTotals" where
  "totals_step round2 acc item =
     (let lineSubtotal = round2 (fmul (unitPrice item) (quantity item));
          lineTax = round2 (fmul lineSubtotal
                              (fdiv (case taxRate item of None \<Rightarrow> Fin 0 | Some t \<Rightarrow> t) (Fin 100)))
      in \<lparr>subtotal = round2 (fadd (subtotal acc) lineSubtotal),
          tax = round2 (fadd (tax acc) lineTax),
          total' = round2 (fadd (fadd (total' acc) lineSubtotal) lineTax)\<rparr>)"

definition zero_totals :: CartTotals where
  "zero_totals = \<lparr>subtotal = Fin 0, tax = Fin 0, total' = Fin 0\<rparr>"

text \<open>
  Rounding to 2 decimals in the order of the specification's words: multiply by 100, add
  a nudge, round to the nearest integer, divide by 100. The nudge is the machine epsilon,
  or 100 times it (what the source's nudge amounts to after its multiplication by 100).
\<close>

definition round2_scale_then_nudge :: "jsnum \<Rightarrow> jsnum \<Rightarrow> jsnum" where
  "round2_scale_then_nudge nudge v = fdiv (Math_round (fadd (fmul v (Fin 100)) nudge)) (Fin 100)"

text \<open>
  Rounding to 2 decimals in the order of the source: add the machine epsilon, multiply by
  100, round to the nearest integer, divide by 100.
\<close>

definition round2_nudge_then_scale :: "jsnum \<Rightarrow> jsnum" where
  "round2_nudge_then_scale v = fdiv (Math_round (fmul (fadd v Number_EPSILON) (Fin 100))) (Fin 100)"

text \<open>
  The sanitization invariant of a cart item: \<open>productId\<close> a positive integer, \<open>quantity\<close>
  finite and positive, \<open>unitPrice\<close> finite, \<open>taxRate\<close> absent or finite (\<open>name\<close> is a
  text and \<open>sku\<close> absent or a text by their types).
\<close>

definition sanitized :: "CartItem \<Rightarrow> bool" where
  "sanitized it \<longleftrightarrow>
     Number_isInteger (productId it) \<and> jsgt (productId it) (Fin 0)
     \<and> Number_isFinite (quantity it) \<and> jsgt (quantity it) (Fin 0)
     \<and> Number_isFinite (unitPrice it)
     \<and> (case taxRate it of None \<Rightarrow> True | Some t \<Rightarrow> Number_isFinite t)"

text \<open>
  What \<open>JSON.parse(JSON.stringify(v))\<close> is for a value without cycles: a property whose
  value is \<open>undefined\<close> is dropped, \<open>undefined\<close> in an array and a number that is not
  finite become \<open>null\<close>.
\<close>

fun json_roundtrip :: "jsval \<Rightarrow> jsval" where
  "json_roundtrip (Obj fs) =
     Obj (map (\<lambda>(k, v). (k, json_roundtrip v)) (filter (\<lambda>(k, v). v \<noteq> Undefined) fs))"
| "json_roundtrip (Arr xs) = Arr (map (\<lambda>x. if x = Undefined then Null else json_roundtrip x) xs)"
| "json_roundtrip (Num n) = (if Number_isFinite n then Num n else Null)"
| "json_roundtrip v = v"

section \<open>Example data\<close>

text \<open>
  A cart of one line (2 items at 500 with 10 percent tax), a browser holding a token, and
  a page ready to submit.
\<close>

definition example_item :: CartItem where
  "example_item =
     \<lparr>productId = Fin 1, name = lit ''Tea'', quantity = Fin 2, unitPrice = Fin 500,
      sku = None, taxRate = Some (Fin 10)\<rparr>"

definition example_env :: env where
  "example_env =
     \<lparr>isBrowser = True, localStorage = [AUTH_STORAGE_KEY \<mapsto> lit ''token-1''], dispatched = []\<rparr>"

definition example_page :: page where
  "example_page =
     \<lparr>cartItems = [example_item], paymentMethod = Cash, receivedAmount = lit ''1100.00'',
      memo = lit '' thanks '', isSubmitting = False, errorMessage = Null, orderResult = Null\<rparr>"

definition example_cart_json :: jsstring where
  \<open>example_cart_json =
     lit ''[{"productId":1,"name":"Tea","quantity":2,"unitPrice":500,"taxRate":10}]''\<close>

definition example_cart_parsed :: jsval where
  "example_cart_parsed =
     Arr [Obj [(lit ''productId'', Num (Fin 1)), (lit ''name'', Str (lit ''Tea'')),
               (lit ''quantity'', Num (Fin 2)), (lit ''unitPrice'', Num (Fin 500)),
               (lit ''taxRate'', Num (Fin 10))]]"

definition example_payload :: OrderCreateRequest where
  "example_payload =
     \<lparr>order_items = [\<lparr>product_id = Fin 1, item_quantity = Fin 2\<rparr>],
      order_payments = [\<lparr>payment_method = Cash, amount = lit ''1100.00''\<rparr>],
      order_memo = Some (lit ''thanks'')\<rparr>"

definition example_payload_json :: jsstring where
  \<open>example_payload_json =
     lit ''{"items":[{"product_id":1,"quantity":2}],"payments":[{"method":"cash","amount":"1100.00"}],"memo":"thanks"}''\<close>


definition example_payload_huge :: OrderCreateRequest where
  "example_payload_huge =
     \<lparr>order_items = [\<lparr>product_id = Fin 1, item_quantity = Fin 2\<rparr>],
      order_payments = [\<lparr>payment_method = Cash, amount = lit ''Infinity''\<rparr>],
      order_memo = Some (lit ''thanks'')\<rparr>"

definition example_payload_huge_json :: jsstring where
  \<open>example_payload_huge_json =
     lit ''{"items":[{"product_id":1,"quantity":2}],"payments":[{"method":"cash","amount":"Infinity"}],"memo":"thanks"}''\<close>



text \<open>
  An instance of the platform for the examples. Each primitive agrees with JavaScript on
  the arguments that the examples pass to it, and takes one fixed value everywhere else.
\<close>

definition example_StringToNumber :: "jsstring \<Rightarrow> jsnum" where
  "example_StringToNumber s =
     (if s = lit ''1100.00'' then Fin 1100
      else if s = lit ''1000'' then Fin 1000
      else if s = lit ''1200'' then Fin 1200
      else if s = lit ''1e308'' then rnd (10 ^ 308)
      else NaN)"

definition example_JSON_parse :: "jsstring \<Rightarrow> jsval option" where
  "example_JSON_parse s = (if s = example_cart_json then Some example_cart_parsed else None)"

definition example_JSON_stringify :: "jsval \<Rightarrow> jsstring" where
  "example_JSON_stringify v =
     (if v = Arr [CartItem_js example_item] then example_cart_json
      else if v = OrderCreateRequest_js example_payload then example_payload_json
      else if v = OrderCreateRequest_js example_payload_huge then example_payload_huge_json
      else lit ''null'')"

definition example_ObjectToNumber :: "jsval \<Rightarrow> exn + jsnum" where
  "example_ObjectToNumber v = Inr NaN"

definition example_NumberToString :: "jsnum \<Rightarrow> jsstring" where
  "example_NumberToString n = lit ''NaN''"

definition example_platform :: platform where
  "example_platform =
     \<lparr>StringToNumber = example_StringToNumber,
      ObjectToNumber = example_ObjectToNumber,
      NumberToString = example_NumberToString,
      JSON_parse = example_JSON_parse,
      JSON_stringify = example_JSON_stringify\<rparr>"

text \<open>Three servers: one answers 204 with no body, one 200 with a body that is not JSON,
  one 422 with a body that is not JSON.\<close>

definition example_fetch_empty :: "request \<Rightarrow> fetch_outcome" where
  "example_fetch_empty req = Responded \<lparr>status = 204, statusText = lit ''No Content'', body_text = []\<rparr>"

definition example_fetch_garbled :: "request \<Rightarrow> fetch_outcome" where
  "example_fetch_garbled req = Responded \<lparr>status = 200, statusText = lit ''OK'', body_text = lit ''upstream error''\<rparr>"

definition example_fetch_rejected :: "request \<Rightarrow> fetch_outcome" where
  "example_fetch_rejected req =
     Responded \<lparr>status = 422, statusText = lit ''Unprocessable Entity'', body_text = lit ''upstream error''\<rparr>"

definition example_options :: ApiFetchOptions where
  "example_options = \<lparr>auth = None, headers = None, body = None, http_method = None\<rparr>"




text \<open>A cart of one line: one item at the price \<open>1.005\<close> (the binary64 value nearest to it).\<close>

definition example_price :: jsnum where
  "example_price = rnd (201 / 200)"

definition example_item_1005 :: CartItem where
  "example_item_1005 =
     \<lparr>productId = Fin 1, name = lit ''Pin'', quantity = Fin 1, unitPrice = example_price,
      sku = None, taxRate = None\<rparr>"

text \<open>And one of one line at the price \<open>2.135\<close>.\<close>

definition example_price_2135 :: jsnum where
  "example_price_2135 = rnd (427 / 200)"

definition example_item_2135 :: CartItem where
  "example_item_2135 =
     \<lparr>productId = Fin 2, name = lit ''Cup'', quantity = Fin 1, unitPrice = example_price_2135,
      sku = None, taxRate = None\<rparr>"

text \<open>A stored record with the alternate field names.\<close>

definition example_raw_item :: jsval where
  "example_raw_item =
     Obj [(lit ''product_id'', Num (Fin 7)), (lit ''quantity'', Num (Fin 2)),
          (lit ''unit_price'', Num (Fin (7 / 2))), (lit ''tax_rate'', Num (Fin 10))]"

section \<open>Rounding to binary64\<close>

lemma pow2_pos: "0 < pow2 k"
  by (simp add: pow2_def)

lemma pow2_add1: "pow2 (k + 1) = 2 * pow2 k"
proof (cases "0 \<le> k")
  case True
  then show ?thesis by (simp add: pow2_def nat_add_distrib)
next
  case False
  then have "nat (- k) = Suc (nat (- (k + 1)))" by simp
  then show ?thesis using False by (simp add: pow2_def)
qed

lemma ilog2_ge1:
  assumes "0 \<le> e" "pow2 e \<le> a" "a < pow2 (e + 1)"
  shows "ilog2 a = e"
proof -
  have a1: "1 \<le> a" using assms by (simp add: pow2_def) (metis one_le_numeral one_le_power order_trans)
  have lo: "(2::nat) ^ nat e \<le> nat \<lfloor>a\<rfloor>"
  proof -
    have "(2::rat) ^ nat e \<le> a" using assms by (simp add: pow2_def)
    then have "(of_int (2 ^ nat e) :: rat) \<le> a" by simp
    then have "(2::int) ^ nat e \<le> \<lfloor>a\<rfloor>" by (simp only: le_floor_iff)
    then show ?thesis by (simp add: le_nat_iff)
  qed
  have hi: "nat \<lfloor>a\<rfloor> < (2::nat) ^ (nat e + 1)"
  proof -
    have "a < (2::rat) ^ (nat e + 1)" using assms by (simp add: pow2_def nat_add_distrib)
    then have "a < (of_int (2 ^ (nat e + 1)) :: rat)" by simp
    then have "\<lfloor>a\<rfloor> < (2::int) ^ (nat e + 1)" by (simp only: floor_less_iff)
    then show ?thesis using a1 by (simp add: nat_less_iff)
  qed
  have "floorlog 2 (nat \<lfloor>a\<rfloor>) = nat e + 1"
  proof (rule antisym)
    show "floorlog 2 (nat \<lfloor>a\<rfloor>) \<le> nat e + 1" using hi by (intro floorlog_leI) auto
    show "nat e + 1 \<le> floorlog 2 (nat \<lfloor>a\<rfloor>)" using lo by (intro floorlog_geI) auto
  qed
  then show ?thesis using a1 assms(1) by (simp add: ilog2_def)
qed


lemma ilog2_lt1:
  assumes "e < 0" "pow2 e \<le> a" "a < pow2 (e + 1)"
  shows "ilog2 a = e"
proof -
  define k where "k = nat (- e)"
  have k: "0 < k" "e = - int k" using assms(1) by (simp_all add: k_def)
  have apos: "0 < a" using assms(2) pow2_pos[of e] by linarith
  have alo: "1 / 2 ^ k \<le> a" using assms(2) k by (simp add: pow2_def)
  have ahi: "a < 1 / 2 ^ (k - 1)"
  proof (cases "k = 1")
    case True
    then show ?thesis using assms(3) k by (simp add: pow2_def)
  next
    case False
    then have "nat (int k - 1) = k - 1" "\<not> 0 \<le> 1 - int k" using k by auto
    then show ?thesis using assms(3) k by (simp add: pow2_def)
  qed
  have a1: "\<not> 1 \<le> a"
  proof -
    have "(1::rat) \<le> 2 ^ (k - 1)" by simp
    then have "1 / 2 ^ (k - 1) \<le> (1::rat)" by (simp add: divide_le_eq)
    then show ?thesis using ahi by linarith
  qed
  have blo: "(2::rat) ^ (k - 1) < 1 / a"
  proof -
    have "a * 2 ^ (k - 1) < 1" using ahi by (simp add: pos_less_divide_eq)
    then show ?thesis using apos by (simp add: pos_less_divide_eq mult.commute)
  qed
  have bhi: "1 / a \<le> (2::rat) ^ k"
  proof -
    have "1 \<le> a * 2 ^ k" using alo by (simp add: pos_divide_le_eq)
    then show ?thesis using apos by (simp add: pos_divide_le_eq mult.commute)
  qed
  have clo: "(2::int) ^ (k - 1) < \<lceil>1 / a\<rceil>"
  proof -
    have "(of_int (2 ^ (k - 1)) :: rat) < 1 / a" using blo by simp
    then show ?thesis by (simp only: less_ceiling_iff)
  qed
  have chi: "\<lceil>1 / a\<rceil> \<le> (2::int) ^ k"
  proof -
    have "1 / a \<le> (of_int (2 ^ k) :: rat)" using bhi by simp
    then show ?thesis by (simp only: ceiling_le_iff)
  qed
  have lo: "(2::nat) ^ (k - 1) \<le> nat (\<lceil>1 / a\<rceil> - 1)"
    using clo by (simp add: le_nat_iff)
  have hi: "nat (\<lceil>1 / a\<rceil> - 1) < (2::nat) ^ k"
    using chi clo by (simp add: nat_less_iff)
  have "floorlog 2 (nat (\<lceil>1 / a\<rceil> - 1)) = k"
  proof (rule antisym)
    show "floorlog 2 (nat (\<lceil>1 / a\<rceil> - 1)) \<le> k" using hi by (intro floorlog_leI) auto
    show "k \<le> floorlog 2 (nat (\<lceil>1 / a\<rceil> - 1))" using lo by (intro floorlog_geI) auto
  qed
  then show ?thesis using a1 k by (simp add: ilog2_def)
qed

lemma ilog2_eq:
  assumes "pow2 e \<le> a" "a < pow2 (e + 1)"
  shows "ilog2 a = e"
  using assms ilog2_ge1[of e a] ilog2_lt1[of e a] by (cases "0 \<le> e") auto

lemma round_half_even_near:
  assumes "\<bar>q - of_int n\<bar> < 1 / 2"
  shows "round_half_even q = n"
proof -
  have b: "of_int n - 1 / 2 < q" "q < of_int n + 1 / 2" using assms by linarith+
  have "of_int (n - 1) \<le> q" using b(1) by simp
  then have f1: "n - 1 \<le> \<lfloor>q\<rfloor>" by (simp only: le_floor_iff)
  have "q < of_int (n + 1)" using b(2) by simp
  then have f2: "\<lfloor>q\<rfloor> < n + 1" by (simp only: floor_less_iff)
  show ?thesis
  proof (cases "\<lfloor>q\<rfloor> = n")
    case True
    then have "q - of_int \<lfloor>q\<rfloor> < 1 / 2" using b by simp
    then show ?thesis using True by (simp add: round_half_even_def Let_def)
  next
    case False
    then have eq: "\<lfloor>q\<rfloor> = n - 1" using f1 f2 by linarith
    then have "1 / 2 < q - of_int \<lfloor>q\<rfloor>" using b by simp
    then show ?thesis using eq by (simp add: round_half_even_def Let_def)
  qed
qed

lemma rnd_eval:
  assumes "pow2 e \<le> x" "x < pow2 (e + 1)" "- 1022 \<le> e"
    and "\<bar>x / pow2 (e - 52) - of_int n\<bar> < 1 / 2"
    and "of_int n * pow2 (e - 52) < 2 ^ 1024"
  shows "rnd x = Fin (of_int n * pow2 (e - 52))"
proof -
  have xpos: "0 < x" using assms(1) pow2_pos[of e] by linarith
  then have ax: "\<bar>x\<bar> = x" by simp
  have e: "ilog2 x = e" using assms(1,2) by (rule ilog2_eq)
  have m: "max e (- 1022) = e" using assms(3) by simp
  have r: "round_half_even (x / pow2 (e - 52)) = n" using assms(4) by (rule round_half_even_near)
  have "rnd x = (if 2 ^ 1024 \<le> of_int n * pow2 (e - 52) then PosInf else Fin (of_int n * pow2 (e - 52)))"
    unfolding rnd_def Let_def ax e m r using xpos by simp
  then show ?thesis using assms(5) by (simp only: not_le[symmetric] if_False)
qed

lemma rnd_neg: "rnd (- x) = fneg (rnd x)"
  by (auto simp: rnd_def Let_def)

lemma rnd_0: "rnd 0 = Fin 0"
  by (simp add: rnd_def)

lemma round_mag_nonneg: "0 \<le> a \<Longrightarrow> 0 \<le> of_int (round_half_even (a / pow2 k)) * pow2 k"
proof -
  assume "0 \<le> a"
  then have "0 \<le> a / pow2 k" using pow2_pos[of k] by (simp add: less_imp_le)
  then have "0 \<le> round_half_even (a / pow2 k)"
    by (auto simp: round_half_even_def Let_def)
  then show ?thesis using pow2_pos[of k] by (simp add: less_imp_le)
qed

lemma rnd_sign_pos: "jslt (Fin 0) (rnd x) \<Longrightarrow> 0 < x"
proof (rule ccontr)
  assume a: "jslt (Fin 0) (rnd x)" and "\<not> 0 < x"
  then have x: "x \<le> 0" by simp
  have "0 \<le> of_int (round_half_even (\<bar>x\<bar> / pow2 (max (ilog2 \<bar>x\<bar>) (- 1022) - 52)))
              * pow2 (max (ilog2 \<bar>x\<bar>) (- 1022) - 52)"
    by (rule round_mag_nonneg) simp
  then have "\<not> jslt (Fin 0) (rnd x)" using x by (auto simp: rnd_def Let_def)
  then show False using a by simp
qed

lemma round_half_even_tie:
  assumes "\<bar>q - of_int n\<bar> = 1 / 2" and "even n"
  shows "round_half_even q = n"
proof (cases "q = of_int n + 1 / 2")
  case True
  have "of_int n \<le> q" "q < of_int (n + 1)" using True by simp_all
  then have f: "\<lfloor>q\<rfloor> = n" by (simp add: floor_unique)
  have "q - of_int \<lfloor>q\<rfloor> = 1 / 2" using True f by simp
  then show ?thesis using f assms(2) by (simp add: round_half_even_def Let_def)
next
  case False
  then have q: "q = of_int n - 1 / 2" using assms(1) by linarith
  have "of_int (n - 1) \<le> q" "q < of_int (n - 1) + 1" using q by simp_all
  then have f: "\<lfloor>q\<rfloor> = n - 1" by (rule floor_unique)
  have "q - of_int \<lfloor>q\<rfloor> = 1 / 2" using q f by simp
  then show ?thesis using f assms(2) by (simp add: round_half_even_def Let_def)
qed

lemma rnd_eval_tie:
  assumes "pow2 e \<le> x" "x < pow2 (e + 1)" "- 1022 \<le> e"
    and "\<bar>x / pow2 (e - 52) - of_int n\<bar> = 1 / 2" and "even n"
    and "of_int n * pow2 (e - 52) < 2 ^ 1024"
  shows "rnd x = Fin (of_int n * pow2 (e - 52))"
proof -
  have xpos: "0 < x" using assms(1) pow2_pos[of e] by linarith
  then have ax: "\<bar>x\<bar> = x" by simp
  have e: "ilog2 x = e" using assms(1,2) by (rule ilog2_eq)
  have m: "max e (- 1022) = e" using assms(3) by simp
  have r: "round_half_even (x / pow2 (e - 52)) = n" using assms(4,5) by (rule round_half_even_tie)
  have "rnd x = (if 2 ^ 1024 \<le> of_int n * pow2 (e - 52) then PosInf else Fin (of_int n * pow2 (e - 52)))"
    unfolding rnd_def Let_def ax e m r using xpos by simp
  then show ?thesis using assms(6) by (simp only: not_le[symmetric] if_False)
qed

lemma pow2_powi: "pow2 k = 2 powi k"
  by (simp add: pow2_def power_int_def inverse_eq_divide power_one_over [symmetric] del: power_one_over)

lemma pow2_add: "pow2 (a + b) = pow2 a * pow2 b"
  by (simp add: pow2_powi power_int_add)

lemma pow2_mono: "a \<le> b \<Longrightarrow> pow2 a \<le> pow2 b"
  by (simp add: pow2_powi power_int_increasing)

lemma pow2_nat: "pow2 (int n) = 2 ^ n"
  by (simp add: pow2_def)

lemma ilog2_bounds:
  assumes "0 < a"
  shows "pow2 (ilog2 a) \<le> a \<and> a < pow2 (ilog2 a + 1)"
proof (cases "1 \<le> a")
  case True
  define n where "n = nat \<lfloor>a\<rfloor>"
  define L where "L = floorlog 2 n"
  have n: "0 < n" using True by (simp add: n_def)
  have b: "2 ^ (L - 1) \<le> n" "n < 2 ^ L"
    using floorlog_bounds [of n 2] n by (simp_all add: L_def)
  have L: "0 < L" using n by (simp add: L_def floorlog_def)
  have e: "ilog2 a = int (L - 1)" using True L by (simp add: ilog2_def L_def n_def of_nat_diff)
  have fl: "of_int \<lfloor>a\<rfloor> \<le> a" "a < of_int \<lfloor>a\<rfloor> + 1" by linarith+
  have "0 \<le> \<lfloor>a\<rfloor>" using True by simp
  then have "(of_nat n :: rat) = of_int \<lfloor>a\<rfloor>" by (simp add: n_def)
  then have na: "of_nat n \<le> a" "a < of_nat n + 1"
    using fl by simp_all
  have "(2::rat) ^ (L - 1) \<le> of_nat n" using b(1) by (metis of_nat_le_iff of_nat_numeral of_nat_power)
  then have lo: "pow2 (ilog2 a) \<le> a" using na unfolding e pow2_nat by linarith
  have "n + 1 \<le> 2 ^ L" using b(2) by simp
  then have "(of_nat (n + 1) :: rat) \<le> of_nat (2 ^ L)" by (simp only: of_nat_le_iff)
  then have "(of_nat n :: rat) + 1 \<le> 2 ^ L" by simp
  moreover have "ilog2 a + 1 = int L" using e L by simp
  ultimately have hi: "a < pow2 (ilog2 a + 1)" using na by (simp add: pow2_nat)
  show ?thesis using lo hi by simp
next
  case False
  then have a1: "a < 1" by simp
  define n where "n = nat (\<lceil>1 / a\<rceil> - 1)"
  define L where "L = floorlog 2 n"
  have inv: "1 < 1 / a" using assms a1 by (simp add: field_simps)
  then have "of_int 1 < 1 / a" by simp
  then have "1 < \<lceil>1 / a\<rceil>" by (simp only: less_ceiling_iff)
  then have c2: "2 \<le> \<lceil>1 / a\<rceil>" by simp
  then have n: "0 < n" by (simp add: n_def)
  have b: "2 ^ (L - 1) \<le> n" "n < 2 ^ L"
    using floorlog_bounds [of n 2] n by (simp_all add: L_def)
  have L: "0 < L" using n by (simp add: L_def floorlog_def)
  have e: "ilog2 a = - int L" using False by (simp add: ilog2_def L_def n_def)
  have ni: "int n = \<lceil>1 / a\<rceil> - 1" using c2 unfolding n_def by arith
  have "int n < 2 ^ L" using b(2) by (metis of_nat_less_iff of_nat_numeral of_nat_power)
  then have "\<lceil>1 / a\<rceil> \<le> 2 ^ L" using ni by simp
  then have "1 / a \<le> of_int (2 ^ L)" by (simp only: ceiling_le_iff)
  then have "1 / a \<le> 2 ^ L" by simp
  then have "1 \<le> a * 2 ^ L" using assms by (simp add: field_simps)
  then have lo: "pow2 (ilog2 a) \<le> a" unfolding e using L by (simp add: pow2_def field_simps)
  have "(2::int) ^ (L - 1) \<le> int n" using b(1) by (metis of_nat_le_iff of_nat_numeral of_nat_power)
  then have "(2::int) ^ (L - 1) < \<lceil>1 / a\<rceil>" using ni by simp
  then have "of_int (2 ^ (L - 1)) < 1 / a" by (simp only: less_ceiling_iff)
  then have "2 ^ (L - 1) < 1 / a" by simp
  then have h: "a * 2 ^ (L - 1) < 1" using assms by (simp add: field_simps)
  have i: "ilog2 a + 1 = - int (L - 1)" using e L by (simp add: of_nat_diff)
  have p: "pow2 (- int (L - 1)) = 1 / 2 ^ (L - 1)"
    by (simp add: pow2_powi power_int_minus inverse_eq_divide)
  have "a < 1 / 2 ^ (L - 1)" using h by (simp add: pos_less_divide_eq)
  then have hi: "a < pow2 (ilog2 a + 1)" by (simp only: i p)
  show ?thesis using lo hi by simp
qed

lemma round_half_even_error: "\<bar>of_int (round_half_even q) - q\<bar> \<le> 1 / 2"
proof -
  have "of_int \<lfloor>q\<rfloor> \<le> q" "q < of_int \<lfloor>q\<rfloor> + 1" by linarith+
  then show ?thesis by (auto simp: round_half_even_def Let_def)
qed



lemma rnd_error:
  assumes "pow2 (- 1022) \<le> x" "x < 2 ^ 1023"
  shows "\<exists>r. rnd x = Fin r \<and> \<bar>r - x\<bar> \<le> x / 2 ^ 53"
proof -
  have xpos: "0 < x" using assms(1) pow2_pos [of "- 1022"] by linarith
  define e where "e = ilog2 x"
  have b: "pow2 e \<le> x" "x < pow2 (e + 1)" using ilog2_bounds [OF xpos] by (simp_all add: e_def)
  have e: "- 1022 \<le> e"
  proof (rule ccontr)
    assume "\<not> - 1022 \<le> e"
    then have "pow2 (e + 1) \<le> pow2 (- 1022)" by (intro pow2_mono) simp
    then show False using b(2) assms(1) by simp
  qed
  define u where "u = pow2 (e - 52)"
  have u: "0 < u" by (simp add: u_def pow2_pos)
  have pe: "pow2 e = 2 ^ 52 * u" using pow2_add [of 52 "e - 52"] by (simp add: u_def pow2_def)
  define r where "r = of_int (round_half_even (x / u)) * u"
  have "r - x = (of_int (round_half_even (x / u)) - x / u) * u"
    using u by (simp add: r_def left_diff_distrib)
  then have "\<bar>r - x\<bar> = \<bar>of_int (round_half_even (x / u)) - x / u\<bar> * u"
    using u by (simp only: abs_mult abs_of_pos)
  also have "\<dots> \<le> 1 / 2 * u" using round_half_even_error [of "x / u"] u by (intro mult_right_mono) simp_all
  also have "\<dots> = pow2 e / 2 ^ 53" by (simp add: pe)
  also have "\<dots> \<le> x / 2 ^ 53" using b(1) by (simp add: divide_right_mono)
  finally have err: "\<bar>r - x\<bar> \<le> x / 2 ^ 53" .
  have "r \<le> x + x / 2 ^ 53" using err by linarith
  also have "\<dots> \<le> 2 * x" using xpos by simp
  also have "\<dots> < 2 ^ 1024" using assms(2) by simp
  finally have fin: "\<not> 2 ^ 1024 \<le> r" by simp
  have "max e (- 1022) = e" using e by simp
  then have "rnd x = Fin r"
    using xpos fin by (simp add: rnd_def Let_def e_def [symmetric] u_def [symmetric] r_def [symmetric])
  then show ?thesis using err by blast
qed

lemma Math_round_error: "\<bar>of_int \<lfloor>m + 1 / 2\<rfloor> - m\<bar> \<le> (1 / 2 :: rat)"
proof -
  have "of_int \<lfloor>m + 1 / 2\<rfloor> \<le> m + 1 / 2" "m + 1 / 2 < of_int \<lfloor>m + 1 / 2\<rfloor> + 1" by linarith+
  then show ?thesis by linarith
qed

lemma roundCurrency_two_decimals:
  assumes "0 < d" "d \<le> 2 ^ 1000"
  shows "\<exists>k. roundCurrency (Fin d) = rnd (of_int k / 100)
             \<and> \<bar>of_int k / 100 - d\<bar> \<le> 1 / 200 + (d + 1) / 2 ^ 50"
proof -
  define x1 where "x1 = d + 1 / 2 ^ 52"
  define B where "B = (2::rat) ^ 1000"
  have B: "200 * B + 200 < 2 ^ 1023" "0 \<le> B" by (simp_all add: B_def)
  have xB: "x1 \<le> B + 1"
  proof -
    have "(1::rat) / 2 ^ 52 \<le> 1" by simp
    then show ?thesis using assms(2) unfolding x1_def B_def [symmetric] by linarith
  qed
  have x1: "pow2 (- 1022) \<le> x1" "x1 < 2 ^ 1023" "0 < x1"
  proof -
    have "pow2 (- 1022) \<le> 1 / 2 ^ 52" by (simp add: pow2_def)
    then show "pow2 (- 1022) \<le> x1" using assms(1) by (simp add: x1_def)
    show p: "0 < x1" using assms(1) by (simp add: x1_def add_pos_pos)
    have "x1 \<le> 200 * B + 200" using xB B(2) by linarith
    then show "x1 < 2 ^ 1023" using B(1) by (rule le_less_trans)
  qed
  obtain s where s: "rnd x1 = Fin s" "\<bar>s - x1\<bar> \<le> x1 / 2 ^ 53"
    using rnd_error [OF x1(1,2)] by blast
  have half: "x1 / 2 ^ 53 \<le> x1 / 2" using x1(3) by (simp add: field_simps)
  have sb: "x1 / 2 \<le> s" "s \<le> 2 * x1" using s(2) half x1(3) by linarith+
  define x2 where "x2 = s * 100"
  have x2: "pow2 (- 1022) \<le> x2" "x2 < 2 ^ 1023"
  proof -
    have "(1::rat) / 2 ^ 52 \<le> x1" using assms(1) by (simp add: x1_def)
    then have a: "(1::rat) / 2 ^ 53 \<le> s" using sb(1) by simp
    have b: "pow2 (- 1022) \<le> 1 / 2 ^ 53" by (simp add: pow2_def)
    have "0 \<le> s" using sb(1) x1(3) by simp
    then have c: "s \<le> x2" by (simp add: x2_def)
    show "pow2 (- 1022) \<le> x2" using b a c by (rule order_trans [OF order_trans])
    have "x2 \<le> 200 * B + 200" using xB sb(2) unfolding x2_def by linarith
    then show "x2 < 2 ^ 1023" using B(1) by (rule le_less_trans)
  qed
  obtain m where m: "rnd x2 = Fin m" "\<bar>m - x2\<bar> \<le> x2 / 2 ^ 53"
    using rnd_error [OF x2] by blast
  define k where "k = \<lfloor>m + 1 / 2\<rfloor>"
  have km: "\<bar>of_int k - m\<bar> \<le> 1 / 2" unfolding k_def by (rule Math_round_error)
  have v1: "fadd (Fin d) Number_EPSILON = Fin s"
    unfolding Number_EPSILON_def fadd.simps x1_def [symmetric] by (rule s(1))
  have v2: "fmul (Fin s) (Fin 100) = Fin m"
    unfolding fmul.simps x2_def [symmetric] by (rule m(1))
  have val: "roundCurrency (Fin d) = rnd (of_int k / 100)"
    unfolding roundCurrency_def v1 v2 by (simp add: k_def)
  define a where "a = of_int k - m"
  define b where "b = m - x2"
  define c where "c = s - x1"
  define eps where "eps = (1::rat) / 2 ^ 52"
  define D where "D = (d + 1) / 2 ^ 53"
  define E1 where "E1 = x1 / 2 ^ 53"
  define E2 where "E2 = x2 / 2 ^ 53"
  define t where "t = of_int k - 100 * d"
  have eq: "t = a + b + 100 * c + 100 * eps"
    by (simp add: t_def a_def b_def c_def eps_def x2_def x1_def)
  have ab: "\<bar>a\<bar> \<le> 1 / 2" "\<bar>b\<bar> \<le> E2" "\<bar>c\<bar> \<le> E1"
    using km m(2) s(2) by (simp_all add: a_def b_def c_def E1_def E2_def)
  have E21: "E2 \<le> 200 * E1" using sb(2) by (simp add: E1_def E2_def x2_def)
  have "x1 \<le> d + 1" by (simp add: x1_def)
  then have E1D: "E1 \<le> D" by (simp add: E1_def D_def divide_right_mono)
  have epsD: "eps \<le> 2 * D" "0 \<le> eps" using assms(1) by (simp_all add: eps_def D_def)
  have D: "0 \<le> D" using assms(1) by (simp add: D_def)
  have "\<bar>t\<bar> \<le> 1 / 2 + 500 * D" using eq ab E21 E1D epsD by linarith
  then have e4: "\<bar>t\<bar> \<le> 1 / 2 + 800 * D" using D by linarith
  have D8: "8 * D = (d + 1) / 2 ^ 50" by (simp add: D_def)
  have "of_int k / 100 - d = t / 100" by (simp add: t_def)
  then have "\<bar>of_int k / 100 - d\<bar> = \<bar>t\<bar> / 100" by (simp only: abs_divide)
  also have "\<dots> \<le> 1 / 200 + 8 * D" using e4 by simp
  also have "\<dots> = 1 / 200 + (d + 1) / 2 ^ 50" by (simp only: D8)
  finally show ?thesis using val by blast
qed

section \<open>The request wrapper\<close>

lemma header_name_lit_Authorization:
  "header_name (lit ''Authorization'') = lit ''authorization''"
  by (simp add: header_name_def lit_def lower_ascii_def)

lemma header_name_lit_Content_Type:
  "header_name (lit ''Content-Type'') = lit ''content-type''"
  by (simp add: header_name_def lit_def lower_ascii_def)

lemma header_names_differ:
  "header_name (lit ''Authorization'') \<noteq> header_name (lit ''Content-Type'')"
  unfolding header_name_lit_Authorization header_name_lit_Content_Type
  by (simp add: lit_def)

lemma Headers_set_Authorization:
  "Headers_set h (lit ''Authorization'') v =
     (if header_value_accepted v then Inr (h(lit ''authorization'' \<mapsto> normalize_value v))
      else Inl TypeError)"
proof -
  have "isByteString (lit ''Authorization'')" "isHeaderName (lit ''Authorization'')"
    by (simp_all add: isByteString_def isHeaderName_def isTokenChar_def lit_def)
  then show ?thesis
    by (simp add: Headers_set_def header_value_accepted_def Let_def header_name_lit_Authorization)
qed

lemma application_json_accepted: "header_value_accepted (lit ''application/json'')"
  by (simp add: header_value_accepted_def isByteString_def isHeaderValue_def normalize_value_def
      isHTTPWhitespace_def isTabOrSpace_def lit_def)

lemma normalize_application_json: "normalize_value (lit ''application/json'') = lit ''application/json''"
  by (simp add: normalize_value_def isHTTPWhitespace_def lit_def)

lemma Headers_set_Content_Type:
  "Headers_set h (lit ''Content-Type'') (lit ''application/json'') =
     Inr (h(lit ''content-type'' \<mapsto> lit ''application/json''))"
proof -
  have "isByteString (lit ''Content-Type'')" "isHeaderName (lit ''Content-Type'')"
    by (simp_all add: isByteString_def isHeaderName_def isTokenChar_def lit_def)
  then show ?thesis
    using application_json_accepted
    by (simp add: Headers_set_def header_value_accepted_def Let_def header_name_lit_Content_Type
        normalize_application_json)
qed








lemma apiFetch_headers_eq:
  "apiFetch_headers e options =
     bindE (if auth options \<noteq> Some False \<and> truthy_token (getAccessToken e)
            then (if header_value_accepted (lit ''Bearer '' @ the (getAccessToken e))
                  then Inr ((new_Headers (headers options))
                             (lit ''authorization'' \<mapsto> normalize_value (lit ''Bearer '' @ the (getAccessToken e))))
                  else Inl TypeError)
            else Inr (new_Headers (headers options)))
       (\<lambda>h. Inr (case body options of
                   Some (StringBody _) \<Rightarrow>
                     if h (lit ''content-type'') = None
                     then h(lit ''content-type'' \<mapsto> lit ''application/json'') else h
                 | _ \<Rightarrow> h))"
  by (auto simp: apiFetch_headers_def Let_def Headers_set_Authorization Headers_set_Content_Type
      Headers_has_def header_name_lit_Content_Type bindE_def
      split: option.splits body.splits sum.splits)

lemma apiFetch_request_eq:
  "apiFetch_request API_BASE_URL e path options =
     bindE (apiFetch_headers e options)
       (\<lambda>h. Inr \<lparr>req_url = API_BASE_URL @ (if startsWith path (lit ''/'') then path else lit ''/'' @ path),
                  req_method = http_method options, req_headers = h, req_body = body options\<rparr>)"
  by (simp add: apiFetch_request_def Let_def)

lemma getAccessToken_example: "getAccessToken example_env = Some (lit ''token-1'')"
  by (simp add: getAccessToken_def example_env_def)

lemma token_1_accepted:
  "lit ''token-1'' \<noteq> []"
  "header_value_accepted (lit ''Bearer '' @ lit ''token-1'')"
  "normalize_value (lit ''Bearer '' @ lit ''token-1'') = lit ''Bearer token-1''"
  by (simp_all add: header_value_accepted_def isByteString_def isHeaderValue_def normalize_value_def
      isHTTPWhitespace_def isTabOrSpace_def lit_def)

lemma startsWith_orders: "startsWith (lit ''/orders'') (lit ''/'')"
  by (simp add: startsWith_def lit_def)

lemma example_request:
  "apiFetch_request [] example_env (lit ''/orders'') example_options =
     Inr \<lparr>req_url = lit ''/orders'', req_method = None,
          req_headers = [lit ''authorization'' \<mapsto> lit ''Bearer token-1''], req_body = None\<rparr>"
  by (simp add: apiFetch_request_eq apiFetch_headers_eq getAccessToken_example token_1_accepted
      startsWith_orders example_options_def new_Headers_def bindE_def)

text \<open>
  C9. When \<open>apiFetch\<close> receives a response with a status in the success range and an
  empty body text, it resolves to \<open>undefined\<close>: it neither throws nor returns an empty
  object.
\<close>

theorem apiFetch_empty_success:
  assumes "apiFetch_request API_BASE_URL e path options = Inr req"
    and "fetch req = Responded r"
    and "response_ok r"
    and "body_text r = []"
  shows "apiFetch P API_BASE_URL fetch e path options = (Inr Undefined, [req])"
  using assms by (simp add: apiFetch_def)

theorem apiFetch_empty_success_witness:
  "apiFetch_request [] example_env (lit ''/orders'') example_options =
     Inr \<lparr>req_url = lit ''/orders'', req_method = None,
          req_headers = [lit ''authorization'' \<mapsto> lit ''Bearer token-1''], req_body = None\<rparr>
   \<and> response_ok \<lparr>status = 204, statusText = lit ''No Content'', body_text = []\<rparr>
   \<and> apiFetch example_platform [] example_fetch_empty example_env (lit ''/orders'') example_options
       = (Inr Undefined,
          [\<lparr>req_url = lit ''/orders'', req_method = None,
            req_headers = [lit ''authorization'' \<mapsto> lit ''Bearer token-1''], req_body = None\<rparr>])"
  using apiFetch_empty_success
          [of "[]" example_env "lit ''/orders''" example_options
              "\<lparr>req_url = lit ''/orders'', req_method = None,
                req_headers = [lit ''authorization'' \<mapsto> lit ''Bearer token-1''], req_body = None\<rparr>"
              example_fetch_empty
              "\<lparr>status = 204, statusText = lit ''No Content'', body_text = []\<rparr>" example_platform]
  by (simp add: example_request example_fetch_empty_def response_ok_def)







section \<open>The checkout page\<close>

lemma floor_rat_numeral_div:
  "\<lfloor>(numeral a :: rat) / numeral b\<rfloor> = numeral a div numeral b"
  using floor_divide_of_int_eq [of "numeral a" "numeral b", where ?'a = rat] by simp

lemma floor_rat_neg_numeral_div:
  "\<lfloor>- (numeral a :: rat) / numeral b\<rfloor> = - numeral a div numeral b"
  using floor_divide_of_int_eq [of "- numeral a" "numeral b", where ?'a = rat] by simp

lemma rnd_1100: "rnd 1100 = Fin 1100"
  using rnd_eval [of 10 1100 "1100 * 2 ^ 42"] by (simp add: pow2_def)

lemma rnd_110000: "rnd 110000 = Fin 110000"
  using rnd_eval [of 16 110000 "110000 * 2 ^ 36"] by (simp add: pow2_def)

lemma trim_example_amount: "trim (lit ''1100.00'') = lit ''1100.00''"
  by (simp add: trim_def lit_def isWhiteSpace_def)

lemma money_pattern_example: "money_pattern (lit ''1100.00'')"
  by (simp add: money_pattern_def lit_def isDigit_def)

lemma parseMoney_example: "parseMoney example_platform (lit ''1100.00'') = Some (Fin 1100)"
proof -
  have n: "filter (\<lambda>c. c \<noteq> 0x2C) (lit ''1100.00'') = lit ''1100.00''"
    by (simp add: lit_def)
  have s: "StringToNumber example_platform (lit ''1100.00'') = Fin 1100"
    by (simp add: example_platform_def example_StringToNumber_def)
  have d: "lit ''1100.00'' \<noteq> lit ''-''" "lit ''1100.00'' \<noteq> lit ''.''" "lit ''1100.00'' \<noteq> lit ''-.''"
    "lit ''1100.00'' \<noteq> []"
    by (simp_all add: lit_def)
  show ?thesis
    unfolding parseMoney_def Let_def trim_example_amount n s
    using money_pattern_example d by (simp add: rnd_1100 rnd_110000 floor_rat_numeral_div)
qed

lemma trim_example_memo: "trim (lit '' thanks '') = lit ''thanks''"
  by (simp add: trim_def lit_def isWhiteSpace_def)

lemma toFixed2_1100: "toFixed2 P (Fin 1100) = lit ''1100.00''"
  by (simp add: fixed2_def lit_def floor_rat_numeral_div)

lemma buildPayload_example: "buildPayload P example_page (Fin 1100) = example_payload"
proof -
  have "lit ''thanks'' \<noteq> []" by (simp add: lit_def)
  then show ?thesis
    by (simp add: buildPayload_def Let_def example_page_def example_item_def example_payload_def
        trim_example_memo toFixed2_1100 del: toFixed2.simps)
qed

lemma buildPayload_cleared:
  "buildPayload P (pg\<lparr>errorMessage := a, orderResult := b\<rparr>) received = buildPayload P pg received"
  by (simp add: buildPayload_def)

lemma handleSubmit_checked:
  assumes "cartItems pg \<noteq> []"
    and "truthy_token (getAccessToken e)"
    and "parsedReceivedAmount P pg = Some received"
    and "\<not> jsle received (Fin 0)"
  shows "handleSubmit P API_BASE_URL fetch e pg =
    (case apiFetch P API_BASE_URL fetch e (lit ''/orders'')
            (order_options P (buildPayload P pg received)) of
       (Inr response, sent) \<Rightarrow>
         (pg\<lparr>errorMessage := Null, orderResult := response, cartItems := [],
             receivedAmount := [], memo := [], isSubmitting := False\<rparr>,
          clearCartItems e, sent)
     | (Inl error, sent) \<Rightarrow>
         (pg\<lparr>errorMessage := catch_message error, orderResult := Null,
             isSubmitting := False\<rparr>, e, sent))"
  using assms
  by (simp add: handleSubmit_def Let_def buildPayload_cleared split: sum.splits prod.splits)

lemma apiFetch_parse_failure:
  assumes "apiFetch_request API_BASE_URL e path options = Inr req"
    and "fetch req = Responded r"
    and "response_ok r"
    and "body_text r \<noteq> []"
    and "JSON_parse P (body_text r) = None"
  shows "apiFetch P API_BASE_URL fetch e path options
           = (Inl (ApiError (status r) (Str (body_text r)) (lit ''Failed to parse response JSON'')),
              [req])"
  using assms by (simp add: apiFetch_def new_ApiError_def)

lemma apiFetch_not_ok:
  assumes "apiFetch_request API_BASE_URL e path options = Inr req"
    and "fetch req = Responded r"
    and "\<not> response_ok r"
  shows "apiFetch P API_BASE_URL fetch e path options
           = (Inl (ApiError (status r)
                    (if body_text r \<noteq> []
                     then (case JSON_parse P (body_text r) of Some v \<Rightarrow> v | None \<Rightarrow> Str (body_text r))
                     else Null)
                    (statusText r)),
              [req])"
  using assms by (simp add: apiFetch_def new_ApiError_def Let_def)

lemma order_request:
  assumes "truthy_token (getAccessToken e)"
  shows "apiFetch_request API_BASE_URL e (lit ''/orders'') (order_options P payload) =
     (if header_value_accepted (lit ''Bearer '' @ the (getAccessToken e))
      then Inr \<lparr>req_url = API_BASE_URL @ lit ''/orders'', req_method = Some (lit ''POST''),
                req_headers =
                  [lit ''authorization'' \<mapsto> normalize_value (lit ''Bearer '' @ the (getAccessToken e)),
                   lit ''content-type'' \<mapsto> lit ''application/json''],
                req_body = Some (StringBody (JSON_stringify P (OrderCreateRequest_js payload)))\<rparr>
      else Inl TypeError)"
proof -
  have "lit ''content-type'' \<noteq> lit ''authorization''" by (simp add: lit_def)
  then show ?thesis
    using assms
    by (simp add: apiFetch_request_eq apiFetch_headers_eq order_options_def startsWith_orders
        new_Headers_def bindE_def)
qed

lemma example_order_request:
  "apiFetch_request [] example_env (lit ''/orders'') (order_options example_platform example_payload) =
     Inr \<lparr>req_url = lit ''/orders'', req_method = Some (lit ''POST''),
          req_headers = [lit ''authorization'' \<mapsto> lit ''Bearer token-1'',
                         lit ''content-type'' \<mapsto> lit ''application/json''],
          req_body = Some (StringBody example_payload_json)\<rparr>"
proof -
  have "JSON_stringify example_platform (OrderCreateRequest_js example_payload) = example_payload_json"
    by (simp add: example_platform_def example_JSON_stringify_def)
       (simp add: OrderCreateRequest_js_def)
  then show ?thesis
    using token_1_accepted
    by (simp add: order_request getAccessToken_example)
qed

text \<open>
  C1, as amended. A response-parse failure (a status in the success range with a body text
  that is not empty and that \<open>JSON.parse\<close> rejects) makes \<open>apiFetch\<close> throw an
  \<open>ApiError\<close>, the class it also throws for a status outside the success range; the
  error carries the status, the body text and the message "Failed to parse response JSON".
  When it reaches the submission handler of the checkout page, the page shows the
  response body text.
\<close>

theorem parse_failure_shows_body_text:
  assumes "cartItems pg \<noteq> []"
    and "truthy_token (getAccessToken e)"
    and "parsedReceivedAmount P pg = Some received"
    and "\<not> jsle received (Fin 0)"
    and "apiFetch_request API_BASE_URL e (lit ''/orders'')
           (order_options P (buildPayload P pg received)) = Inr req"
    and "fetch req = Responded r"
    and "response_ok r"
    and "body_text r \<noteq> []"
    and "JSON_parse P (body_text r) = None"
  shows "apiFetch P API_BASE_URL fetch e (lit ''/orders'') (order_options P (buildPayload P pg received))
           = (Inl (ApiError (status r) (Str (body_text r)) (lit ''Failed to parse response JSON'')),
              [req])
         \<and> instanceof_ApiError
             (ApiError (status r) (Str (body_text r)) (lit ''Failed to parse response JSON''))
         \<and> errorMessage (fst (handleSubmit P API_BASE_URL fetch e pg)) = Str (body_text r)"
proof -
  have thrown: "apiFetch P API_BASE_URL fetch e (lit ''/orders'')
                  (order_options P (buildPayload P pg received))
      = (Inl (ApiError (status r) (Str (body_text r)) (lit ''Failed to parse response JSON'')),
         [req])"
    using assms(5-9) by (rule apiFetch_parse_failure)
  have shown: "catch_message (ApiError (status r) (Str (body_text r))
                 (lit ''Failed to parse response JSON'')) = Str (body_text r)"
    by (simp add: catch_message_def nullish_def)
  have "errorMessage (fst (handleSubmit P API_BASE_URL fetch e pg)) = Str (body_text r)"
    by (simp add: handleSubmit_checked [OF assms(1-4)] thrown shown)
  then show ?thesis using thrown by simp
qed

lemma example_page_checked:
  "cartItems example_page \<noteq> []"
  "truthy_token (getAccessToken example_env)"
  "parsedReceivedAmount example_platform example_page = Some (Fin 1100)"
  "\<not> jsle (Fin 1100) (Fin 0)"
proof -
  show "cartItems example_page \<noteq> []" by (simp add: example_page_def)
  have "lit ''token-1'' \<noteq> []" by (simp add: lit_def)
  then show "truthy_token (getAccessToken example_env)"
    by (simp add: getAccessToken_example)
  show "parsedReceivedAmount example_platform example_page = Some (Fin 1100)"
    by (simp add: parsedReceivedAmount_def example_page_def parseMoney_example)
  show "\<not> jsle (Fin 1100) (Fin 0)" by simp
qed

lemma example_garbled_unparsed:
  "body_text \<lparr>status = 200, statusText = lit ''OK'', body_text = lit ''upstream error''\<rparr> \<noteq> []"
  "JSON_parse example_platform
     (body_text \<lparr>status = 200, statusText = lit ''OK'', body_text = lit ''upstream error''\<rparr>) = None"
  by (simp_all add: example_platform_def example_JSON_parse_def example_cart_json_def lit_def)

theorem parse_failure_shows_body_text_witness:
  "apiFetch example_platform [] example_fetch_garbled example_env (lit ''/orders'')
       (order_options example_platform example_payload)
     = (Inl (ApiError 200 (Str (lit ''upstream error'')) (lit ''Failed to parse response JSON'')),
        [\<lparr>req_url = lit ''/orders'', req_method = Some (lit ''POST''),
          req_headers = [lit ''authorization'' \<mapsto> lit ''Bearer token-1'',
                         lit ''content-type'' \<mapsto> lit ''application/json''],
          req_body = Some (StringBody example_payload_json)\<rparr>])
   \<and> errorMessage (fst (handleSubmit example_platform [] example_fetch_garbled example_env example_page))
     = Str (lit ''upstream error'')"
proof -
  have q: "apiFetch_request [] example_env (lit ''/orders'')
             (order_options example_platform (buildPayload example_platform example_page (Fin 1100)))
           = Inr \<lparr>req_url = lit ''/orders'', req_method = Some (lit ''POST''),
                  req_headers = [lit ''authorization'' \<mapsto> lit ''Bearer token-1'',
                                 lit ''content-type'' \<mapsto> lit ''application/json''],
                  req_body = Some (StringBody example_payload_json)\<rparr>"
    by (simp only: buildPayload_example example_order_request)
  have f: "example_fetch_garbled
             \<lparr>req_url = lit ''/orders'', req_method = Some (lit ''POST''),
              req_headers = [lit ''authorization'' \<mapsto> lit ''Bearer token-1'',
                             lit ''content-type'' \<mapsto> lit ''application/json''],
              req_body = Some (StringBody example_payload_json)\<rparr>
           = Responded \<lparr>status = 200, statusText = lit ''OK'', body_text = lit ''upstream error''\<rparr>"
    by (simp add: example_fetch_garbled_def)
  have ok: "response_ok \<lparr>status = 200, statusText = lit ''OK'', body_text = lit ''upstream error''\<rparr>"
    by (simp add: response_ok_def)
  show ?thesis
    using parse_failure_shows_body_text
            [where fetch = example_fetch_garbled, OF example_page_checked q f ok example_garbled_unparsed]
    by (simp add: buildPayload_example)
qed

text \<open>
  C1 as stated fails. With a page ready to submit and a server that answers 200 with the
  body \<open>upstream error\<close>, \<open>apiFetch\<close> throws an \<open>ApiError\<close>, as it does for the answer 422, and the
  page shows \<open>upstream error\<close>, not the message for unexpected errors.
\<close>

theorem parse_failure_counterexample:
  "fst (apiFetch example_platform [] example_fetch_garbled example_env (lit ''/orders'')
         (order_options example_platform example_payload))
     = Inl (ApiError 200 (Str (lit ''upstream error'')) (lit ''Failed to parse response JSON''))
   \<and> instanceof_ApiError (ApiError 200 (Str (lit ''upstream error'')) (lit ''Failed to parse response JSON''))
   \<and> fst (apiFetch example_platform [] example_fetch_rejected example_env (lit ''/orders'')
           (order_options example_platform example_payload))
     = Inl (ApiError 422 (Str (lit ''upstream error'')) (lit ''Unprocessable Entity''))
   \<and> instanceof_ApiError (ApiError 422 (Str (lit ''upstream error'')) (lit ''Unprocessable Entity''))
   \<and> errorMessage (fst (handleSubmit example_platform [] example_fetch_garbled example_env example_page))
     = Str (lit ''upstream error'')
   \<and> Str (lit ''upstream error'') \<noteq> Str MSG_UNEXPECTED"
proof -
  let ?opts = "order_options example_platform example_payload"
  let ?req = "\<lparr>req_url = lit ''/orders'', req_method = Some (lit ''POST''),
                req_headers = [lit ''authorization'' \<mapsto> lit ''Bearer token-1'',
                               lit ''content-type'' \<mapsto> lit ''application/json''],
                req_body = Some (StringBody example_payload_json)\<rparr>"
  let ?r = "\<lparr>status = 200, statusText = lit ''OK'', body_text = lit ''upstream error''\<rparr>"
  let ?q = "\<lparr>status = 422, statusText = lit ''Unprocessable Entity'', body_text = lit ''upstream error''\<rparr>"
  have ok: "response_ok ?r" by (simp add: response_ok_def)
  have f: "example_fetch_garbled ?req = Responded ?r"
    by (simp add: example_fetch_garbled_def)
  have a: "apiFetch example_platform [] example_fetch_garbled example_env (lit ''/orders'') ?opts
      = (Inl (ApiError 200 (Str (lit ''upstream error'')) (lit ''Failed to parse response JSON'')),
         [?req])"
    using apiFetch_parse_failure
            [where fetch = example_fetch_garbled, OF example_order_request f ok example_garbled_unparsed]
    by simp
  have nok: "\<not> response_ok ?q" by (simp add: response_ok_def)
  have g: "example_fetch_rejected ?req = Responded ?q"
    by (simp add: example_fetch_rejected_def)
  have b: "apiFetch example_platform [] example_fetch_rejected example_env (lit ''/orders'') ?opts
      = (Inl (ApiError 422 (Str (lit ''upstream error'')) (lit ''Unprocessable Entity'')), [?req])"
    using apiFetch_not_ok
            [where fetch = example_fetch_rejected and P = example_platform,
             OF example_order_request g nok]
      example_garbled_unparsed by simp
  have c: "catch_message (ApiError 200 (Str (lit ''upstream error'')) (lit ''Failed to parse response JSON''))
      = Str (lit ''upstream error'')"
    by (simp add: catch_message_def nullish_def)
  have d: "errorMessage (fst (handleSubmit example_platform [] example_fetch_garbled example_env example_page))
      = Str (lit ''upstream error'')"
    by (simp add: handleSubmit_checked [OF example_page_checked] buildPayload_example a c)
  have e: "Str (lit ''upstream error'') \<noteq> Str MSG_UNEXPECTED"
    by (simp add: MSG_UNEXPECTED_def lit_def)
  show ?thesis using a b d e by simp
qed

lemma messages_distinct:
  "distinct [MSG_CART_EMPTY, MSG_NO_AUTH, MSG_ENTER_AMOUNT, MSG_AMOUNT_POSITIVE,
             MSG_CHECKOUT_FAILED, MSG_UNEXPECTED]"
  by (simp add: MSG_CART_EMPTY_def MSG_NO_AUTH_def MSG_ENTER_AMOUNT_def MSG_AMOUNT_POSITIVE_def
      MSG_CHECKOUT_FAILED_def MSG_UNEXPECTED_def)

text \<open>
  C6. The submission flow makes its local checks in the order: empty cart, missing token
  (none stored, or an empty one), unparseable received amount, parsed amount at most 0.
  The first check that fails sets its own message and ends the handler: no request is
  issued, and the browser state (the stored token with it) and the rest of the page (the
  cart and the submission-in-progress flag with it) are unchanged; only the previous
  order result is cleared.
\<close>

theorem handleSubmit_local_checks:
  assumes "cartItems pg = [] \<or> \<not> truthy_token (getAccessToken e)
           \<or> (case parsedReceivedAmount P pg of None \<Rightarrow> True | Some received \<Rightarrow> jsle received (Fin 0))"
  shows "handleSubmit P API_BASE_URL fetch e pg =
           (pg\<lparr>errorMessage :=
                  Str (if cartItems pg = [] then MSG_CART_EMPTY
                       else if \<not> truthy_token (getAccessToken e) then MSG_NO_AUTH
                       else if parsedReceivedAmount P pg = None then MSG_ENTER_AMOUNT
                       else MSG_AMOUNT_POSITIVE),
                orderResult := Null\<rparr>,
            e, [])"
  using assms by (auto simp: handleSubmit_def Let_def split: option.splits)

theorem handleSubmit_local_checks_witness:
  "handleSubmit example_platform [] example_fetch_garbled
       (example_env\<lparr>localStorage := Map.empty\<rparr>) (example_page\<lparr>cartItems := []\<rparr>)
     = (example_page\<lparr>cartItems := [], errorMessage := Str MSG_CART_EMPTY\<rparr>,
        example_env\<lparr>localStorage := Map.empty\<rparr>, [])
   \<and> handleSubmit example_platform [] example_fetch_garbled
       (example_env\<lparr>localStorage := Map.empty\<rparr>) example_page
     = (example_page\<lparr>errorMessage := Str MSG_NO_AUTH\<rparr>,
        example_env\<lparr>localStorage := Map.empty\<rparr>, [])"
  using handleSubmit_local_checks [of "example_page\<lparr>cartItems := []\<rparr>"
          "example_env\<lparr>localStorage := Map.empty\<rparr>" example_platform "[]" example_fetch_garbled]
    handleSubmit_local_checks [of example_page
          "example_env\<lparr>localStorage := Map.empty\<rparr>" example_platform "[]" example_fetch_garbled]
  by (simp add: example_page_def getAccessToken_def example_env_def)



lemma toFixed2_two_decimals:
  assumes "\<bar>a\<bar> < 10 ^ 21"
  shows "toFixed2 P (Fin a) =
           (if a < 0 then lit ''-'' else [])
           @ decimal_digits (nat \<lfloor>\<bar>a\<bar> * 100 + 1 / 2\<rfloor> div 100)
           @ lit ''.''
           @ [digit_char (nat \<lfloor>\<bar>a\<bar> * 100 + 1 / 2\<rfloor> mod 100 div 10),
              digit_char (nat \<lfloor>\<bar>a\<bar> * 100 + 1 / 2\<rfloor> mod 10)]"
  using assms by (simp add: fixed2_def)









lemma fsub_positive:
  assumes "jslt (Fin 0) (fsub received totals_total)"
  shows "jsle totals_total received"
proof (cases received)
  case (Fin a)
  show ?thesis
  proof (cases totals_total)
    case (Fin b)
    have "jslt (Fin 0) (rnd (a - b))" using assms \<open>received = Fin a\<close> Fin by (simp add: fsub_def)
    then have "0 < a - b" by (rule rnd_sign_pos)
    then show ?thesis using \<open>received = Fin a\<close> Fin by simp
  qed (use assms Fin in \<open>simp_all add: fsub_def\<close>)
qed (use assms in \<open>cases totals_total; simp add: fsub_def\<close>)+

lemma rnd_100: "rnd 100 = Fin 100"
  using rnd_eval [of 6 100 "100 * 2 ^ 46"] by (simp add: pow2_def)

lemma rnd_1000: "rnd 1000 = Fin 1000"
  using rnd_eval [of 9 1000 "1000 * 2 ^ 43"] by (simp add: pow2_def)

lemma roundCurrency_100: "roundCurrency (Fin 100) = Fin 100"
proof -
  have a: "fadd (Fin 100) Number_EPSILON = Fin 100"
    using rnd_eval [of 6 "100 + 1 / 2 ^ 52" "100 * 2 ^ 46"]
    by (simp add: Number_EPSILON_def pow2_def)
  have b: "fmul (Fin 100) (Fin 100) = Fin 10000"
    using rnd_eval [of 13 10000 "10000 * 2 ^ 39"] by (simp add: pow2_def)
  have c: "Math_round (Fin 10000) = Fin 10000"
    by (simp add: floor_rat_numeral_div)
  have d: "fdiv (Fin 10000) (Fin 100) = Fin 100"
    by (simp add: rnd_100)
  show ?thesis unfolding roundCurrency_def a b c d ..
qed

lemma parseMoney_example_1000: "parseMoney example_platform (lit ''1000'') = Some (Fin 1000)"
proof -
  have t: "trim (lit ''1000'') = lit ''1000''"
    by (simp add: trim_def lit_def isWhiteSpace_def)
  have n: "filter (\<lambda>c. c \<noteq> 0x2C) (lit ''1000'') = lit ''1000''"
    by (simp add: lit_def)
  have s: "StringToNumber example_platform (lit ''1000'') = Fin 1000"
    by (simp add: example_platform_def example_StringToNumber_def) (simp add: lit_def)
  have m: "fmul (Fin 1000) (Fin 100) = Fin 100000"
    using rnd_eval [of 16 100000 "100000 * 2 ^ 36"] by (simp add: pow2_def)
  have r: "Math_round (Fin 100000) = Fin 100000"
    by (simp add: floor_rat_numeral_div)
  have d: "fdiv (Fin 100000) (Fin 100) = Fin 1000"
    by (simp add: rnd_1000)
  have e: "lit ''1000'' \<noteq> []" by (simp add: lit_def)
  show ?thesis
    unfolding parseMoney_def Let_def t n s m r d using e by simp
qed

lemma parseMoney_example_1200: "parseMoney example_platform (lit ''1200'') = Some (Fin 1200)"
proof -
  have t: "trim (lit ''1200'') = lit ''1200''"
    by (simp add: trim_def lit_def isWhiteSpace_def)
  have n: "filter (\<lambda>c. c \<noteq> 0x2C) (lit ''1200'') = lit ''1200''"
    by (simp add: lit_def)
  have s: "StringToNumber example_platform (lit ''1200'') = Fin 1200"
    by (simp add: example_platform_def example_StringToNumber_def) (simp add: lit_def)
  have m: "fmul (Fin 1200) (Fin 100) = Fin 120000"
    using rnd_eval [of 16 120000 "120000 * 2 ^ 36"] by (simp add: pow2_def)
  have r: "Math_round (Fin 120000) = Fin 120000"
    by (simp add: floor_rat_numeral_div)
  have d: "fdiv (Fin 120000) (Fin 100) = Fin 1200"
    using rnd_eval [of 10 1200 "1200 * 2 ^ 42"] by (simp add: pow2_def)
  have e: "lit ''1200'' \<noteq> []" by (simp add: lit_def)
  show ?thesis
    unfolding parseMoney_def Let_def t n s m r d using e by simp
qed

lemma parseMoney_example_abc:
  "\<not> money_pattern (lit ''abc'')" "parseMoney example_platform (lit ''abc'') = None"
proof -
  show m: "\<not> money_pattern (lit ''abc'')"
    by (simp add: money_pattern_def lit_def isDigit_def)
  have t: "trim (lit ''abc'') = lit ''abc''"
    by (simp add: trim_def lit_def isWhiteSpace_def)
  have n: "filter (\<lambda>c. c \<noteq> 0x2C) (lit ''abc'') = lit ''abc''"
    by (simp add: lit_def)
  have s: "StringToNumber example_platform (lit ''abc'') = NaN"
    by (simp add: example_platform_def example_StringToNumber_def) (simp add: lit_def)
  have e: "lit ''abc'' \<noteq> []" by (simp add: lit_def)
  show "parseMoney example_platform (lit ''abc'') = None"
    unfolding parseMoney_def Let_def t n s using e m by simp
qed

text \<open>
  C7. For every cart total and received-amount text: when the amount does not parse, the
  computed change and the shortage are both 0. Otherwise the change is the parsed amount
  minus the total, rounded to 2 decimals, when that difference is positive, and 0 when
  it is not; the shortage is 0 when the parsed amount is at least the total, and the
  rounded difference total minus parsed amount when it is not. Rounding a value to 2
  decimals is: add the machine epsilon, multiply by 100, round to the nearest integer,
  divide by 100; for a positive difference \<open>d\<close> (up to \<open>2^1000\<close>) the result is the
  number nearest to \<open>k / 100\<close> for an integer \<open>k\<close> with \<open>k / 100\<close> within
  \<open>1/200 + (d + 1) / 2^50\<close> of \<open>d\<close>. The change and the shortage are never both
  positive.
\<close>

theorem change_and_shortage:
  "computedChange (parseMoney P input) totals_total =
     (case parseMoney P input of
        None \<Rightarrow> Fin 0
      | Some received \<Rightarrow>
          if jsgt (fsub received totals_total) (Fin 0)
          then fdiv (Math_round (fmul (fadd (fsub received totals_total) Number_EPSILON) (Fin 100)))
                 (Fin 100)
          else Fin 0)
   \<and> shortage (parseMoney P input) totals_total =
     (case parseMoney P input of
        None \<Rightarrow> Fin 0
      | Some received \<Rightarrow>
          if jsge received totals_total then Fin 0
          else fdiv (Math_round (fmul (fadd (fsub totals_total received) Number_EPSILON) (Fin 100)))
                 (Fin 100))
   \<and> \<not> (jsgt (computedChange (parseMoney P input) totals_total) (Fin 0)
         \<and> jsgt (shortage (parseMoney P input) totals_total) (Fin 0))
   \<and> (\<forall>received d.
         parseMoney P input = Some received \<and> fsub received totals_total = Fin d
         \<and> 0 < d \<and> d \<le> 2 ^ 1000
         \<longrightarrow> (\<exists>k. computedChange (parseMoney P input) totals_total = rnd (of_int k / 100)
                  \<and> \<bar>of_int k / 100 - d\<bar> \<le> 1 / 200 + (d + 1) / 2 ^ 50))
   \<and> (\<forall>received d.
         parseMoney P input = Some received \<and> \<not> jsge received totals_total
         \<and> fsub totals_total received = Fin d \<and> 0 < d \<and> d \<le> 2 ^ 1000
         \<longrightarrow> (\<exists>k. shortage (parseMoney P input) totals_total = rnd (of_int k / 100)
                  \<and> \<bar>of_int k / 100 - d\<bar> \<le> 1 / 200 + (d + 1) / 2 ^ 50))"
proof -
  have a: "computedChange parsed totals_total =
     (case parsed of
        None \<Rightarrow> Fin 0
      | Some received \<Rightarrow>
          if jsgt (fsub received totals_total) (Fin 0)
          then fdiv (Math_round (fmul (fadd (fsub received totals_total) Number_EPSILON) (Fin 100)))
                 (Fin 100)
          else Fin 0)" for parsed
    by (simp add: computedChange_def roundCurrency_def Let_def split: option.splits)
  have b: "shortage parsed totals_total =
     (case parsed of
        None \<Rightarrow> Fin 0
      | Some received \<Rightarrow>
          if jsge received totals_total then Fin 0
          else fdiv (Math_round (fmul (fadd (fsub totals_total received) Number_EPSILON) (Fin 100)))
                 (Fin 100))"
    for parsed
    by (simp add: shortage_def roundCurrency_def split: option.splits)
  have c: "\<not> (jsgt (computedChange parsed totals_total) (Fin 0)
            \<and> jsgt (shortage parsed totals_total) (Fin 0))" for parsed
  proof (cases parsed)
    case None
    then show ?thesis by (simp add: computedChange_def)
  next
    case (Some received)
    show ?thesis
    proof (cases "jsgt (fsub received totals_total) (Fin 0)")
      case True
      then have "jsle totals_total received" by (rule fsub_positive)
      then show ?thesis using Some by (simp add: shortage_def)
    next
      case False
      then show ?thesis using Some by (simp add: computedChange_def Let_def)
    qed
  qed
  have d: "\<exists>k. computedChange (Some received) totals_total = rnd (of_int k / 100)
                  \<and> \<bar>of_int k / 100 - d\<bar> \<le> 1 / 200 + (d + 1) / 2 ^ 50"
    if "fsub received totals_total = Fin d" "0 < d" "d \<le> 2 ^ 1000" for received d
    using roundCurrency_two_decimals [OF that(2,3)] that(1,2)
    by (simp add: computedChange_def Let_def)
  have e: "\<exists>k. shortage (Some received) totals_total = rnd (of_int k / 100)
                  \<and> \<bar>of_int k / 100 - d\<bar> \<le> 1 / 200 + (d + 1) / 2 ^ 50"
    if "\<not> jsge received totals_total" "fsub totals_total received = Fin d" "0 < d" "d \<le> 2 ^ 1000"
    for received d
    using roundCurrency_two_decimals [OF that(3,4)] that(1,2)
    by (simp add: shortage_def)
  show ?thesis
    apply (rule conjI [OF a conjI [OF b conjI [OF c conjI]]])
    using d apply (metis)
    using e apply (metis)
    done
qed

text \<open>
  Examples. With the total 1100: the text \<open>1000\<close> gives the shortage 100 and no change,
  the text \<open>1200\<close> the change 100 and no shortage, the text \<open>abc\<close> neither. With the
  total 1250.125 and the text \<open>1200\<close> the difference is 50.125 and the shortage is 50.13;
  with the total 999.875 and the text \<open>1000\<close> the difference is 0.125 and the change is
  0.13.
\<close>

lemma roundCurrency_50125: "roundCurrency (Fin (401 / 8)) = rnd (5013 / 100)"
proof -
  have a: "fadd (Fin (401 / 8)) Number_EPSILON = Fin (401 / 8)"
    using rnd_eval [of 5 "401 / 8 + 1 / 2 ^ 52" 7054466603810816]
    by (simp add: Number_EPSILON_def pow2_def)
  have b: "fmul (Fin (401 / 8)) (Fin 100) = Fin (10025 / 2)"
    using rnd_eval [of 12 "10025 / 2" 5511302034227200] by (simp add: pow2_def)
  have c: "Math_round (Fin (10025 / 2)) = Fin 5013"
    by (simp add: floor_rat_numeral_div)
  show ?thesis unfolding roundCurrency_def a b c by simp
qed

lemma roundCurrency_0125: "roundCurrency (Fin (1 / 8)) = rnd (13 / 100)"
proof -
  have a: "fadd (Fin (1 / 8)) Number_EPSILON = Fin (562949953421313 / 4503599627370496)"
    using rnd_eval [of "- 3" "1 / 8 + 1 / 2 ^ 52" 4503599627370504]
    by (simp add: Number_EPSILON_def pow2_def)
  have b: "fmul (Fin (562949953421313 / 4503599627370496)) (Fin 100)
             = Fin (1759218604441603 / 140737488355328)"
    using rnd_eval_tie [of 3 "562949953421313 / 4503599627370496 * 100" 7036874417766412]
    by (simp add: pow2_def)
  have c: "Math_round (Fin (1759218604441603 / 140737488355328)) = Fin 13"
    by (simp add: floor_rat_numeral_div)
  show ?thesis unfolding roundCurrency_def a b c by simp
qed

lemma rnd_two_decimal_examples:
  "rnd (5013 / 100) = Fin (7055170291252593 / 140737488355328)"
  "rnd (13 / 100) = Fin (1170935903116329 / 9007199254740992)"
  using rnd_eval [of 5 "5013 / 100" 7055170291252593]
    rnd_eval [of "- 3" "13 / 100" 4683743612465316]
  by (simp_all add: pow2_def)

theorem change_and_shortage_witness:
  "computedChange (parseMoney example_platform (lit ''1000'')) (Fin 1100) = Fin 0
   \<and> shortage (parseMoney example_platform (lit ''1000'')) (Fin 1100) = Fin 100
   \<and> computedChange (parseMoney example_platform (lit ''1200'')) (Fin 1100) = Fin 100
   \<and> shortage (parseMoney example_platform (lit ''1200'')) (Fin 1100) = Fin 0
   \<and> computedChange (parseMoney example_platform (lit ''abc'')) (Fin 1100) = Fin 0
   \<and> shortage (parseMoney example_platform (lit ''abc'')) (Fin 1100) = Fin 0
   \<and> fsub (Fin (10001 / 8)) (Fin 1200) = Fin (401 / 8)
   \<and> shortage (parseMoney example_platform (lit ''1200'')) (Fin (10001 / 8))
       = Fin (7055170291252593 / 140737488355328)
   \<and> rnd (5013 / 100) = Fin (7055170291252593 / 140737488355328)
   \<and> computedChange (parseMoney example_platform (lit ''1200'')) (Fin (10001 / 8)) = Fin 0
   \<and> fsub (Fin 1000) (Fin (7999 / 8)) = Fin (1 / 8)
   \<and> computedChange (parseMoney example_platform (lit ''1000'')) (Fin (7999 / 8))
       = Fin (1170935903116329 / 9007199254740992)
   \<and> rnd (13 / 100) = Fin (1170935903116329 / 9007199254740992)
   \<and> shortage (parseMoney example_platform (lit ''1000'')) (Fin (7999 / 8)) = Fin 0
   \<and> (\<exists>k. shortage (parseMoney example_platform (lit ''1200'')) (Fin (10001 / 8))
              = rnd (of_int k / 100)
            \<and> \<bar>of_int k / 100 - (401 / 8 :: rat)\<bar> \<le> 1 / 200 + (401 / 8 + 1) / 2 ^ 50)
   \<and> (\<exists>k. computedChange (parseMoney example_platform (lit ''1000'')) (Fin (7999 / 8))
              = rnd (of_int k / 100)
            \<and> \<bar>of_int k / 100 - (1 / 8 :: rat)\<bar> \<le> 1 / 200 + (1 / 8 + 1) / 2 ^ 50)"
proof -
  have a: "fsub (Fin 1000) (Fin 1100) = Fin (- 100)"
    using rnd_neg [of 100] by (simp add: fsub_def rnd_100)
  have b: "fsub (Fin 1100) (Fin 1000) = Fin 100"
    by (simp add: fsub_def rnd_100)
  have c: "fsub (Fin 1200) (Fin 1100) = Fin 100"
    by (simp add: fsub_def rnd_100)
  have d: "fsub (Fin (10001 / 8)) (Fin 1200) = Fin (401 / 8)"
    using rnd_eval [of 5 "401 / 8" 7054466603810816] by (simp add: fsub_def pow2_def)
  have d': "fsub (Fin 1200) (Fin (10001 / 8)) = Fin (- (401 / 8))"
    using rnd_eval [of 5 "401 / 8" 7054466603810816] rnd_neg [of "401 / 8"]
    by (simp add: fsub_def pow2_def)
  have e: "fsub (Fin 1000) (Fin (7999 / 8)) = Fin (1 / 8)"
    using rnd_eval [of "- 3" "1 / 8" 4503599627370496] by (simp add: fsub_def pow2_def)
  note r = roundCurrency_100 [unfolded roundCurrency_def] roundCurrency_50125 [unfolded roundCurrency_def]
    roundCurrency_0125 [unfolded roundCurrency_def]
  have p: "(0::rat) < 401 / 8" "(401::rat) / 8 \<le> 2 ^ 1000" "(0::rat) < 1 / 8" "(1::rat) / 8 \<le> 2 ^ 1000"
    "\<not> jsge (Fin 1200) (Fin (10001 / 8))"
    by simp_all
  have k1: "\<exists>k. shortage (parseMoney example_platform (lit ''1200'')) (Fin (10001 / 8))
              = rnd (of_int k / 100)
            \<and> \<bar>of_int k / 100 - (401 / 8 :: rat)\<bar> \<le> 1 / 200 + (401 / 8 + 1) / 2 ^ 50"
    by (rule change_and_shortage [of example_platform "lit ''1200''" "Fin (10001 / 8)",
            THEN conjunct2, THEN conjunct2, THEN conjunct2, THEN conjunct2, rule_format,
            of "Fin 1200" "401 / 8"])
       (intro conjI parseMoney_example_1200 p d)
  have k2: "\<exists>k. computedChange (parseMoney example_platform (lit ''1000'')) (Fin (7999 / 8))
              = rnd (of_int k / 100)
            \<and> \<bar>of_int k / 100 - (1 / 8 :: rat)\<bar> \<le> 1 / 200 + (1 / 8 + 1) / 2 ^ 50"
    by (rule change_and_shortage [of example_platform "lit ''1000''" "Fin (7999 / 8)",
            THEN conjunct2, THEN conjunct2, THEN conjunct2, THEN conjunct1, rule_format,
            of "Fin 1000" "1 / 8"])
       (intro conjI parseMoney_example_1000 p e)
  have v: "computedChange (parseMoney example_platform (lit ''1000'')) (Fin 1100) = Fin 0
   \<and> shortage (parseMoney example_platform (lit ''1000'')) (Fin 1100) = Fin 100
   \<and> computedChange (parseMoney example_platform (lit ''1200'')) (Fin 1100) = Fin 100
   \<and> shortage (parseMoney example_platform (lit ''1200'')) (Fin 1100) = Fin 0
   \<and> computedChange (parseMoney example_platform (lit ''abc'')) (Fin 1100) = Fin 0
   \<and> shortage (parseMoney example_platform (lit ''abc'')) (Fin 1100) = Fin 0
   \<and> fsub (Fin (10001 / 8)) (Fin 1200) = Fin (401 / 8)
   \<and> shortage (parseMoney example_platform (lit ''1200'')) (Fin (10001 / 8))
       = Fin (7055170291252593 / 140737488355328)
   \<and> rnd (5013 / 100) = Fin (7055170291252593 / 140737488355328)
   \<and> computedChange (parseMoney example_platform (lit ''1200'')) (Fin (10001 / 8)) = Fin 0
   \<and> fsub (Fin 1000) (Fin (7999 / 8)) = Fin (1 / 8)
   \<and> computedChange (parseMoney example_platform (lit ''1000'')) (Fin (7999 / 8))
       = Fin (1170935903116329 / 9007199254740992)
   \<and> rnd (13 / 100) = Fin (1170935903116329 / 9007199254740992)
   \<and> shortage (parseMoney example_platform (lit ''1000'')) (Fin (7999 / 8)) = Fin 0"
    using change_and_shortage [of example_platform "lit ''1000''" "Fin 1100", THEN conjunct1]
      change_and_shortage [of example_platform "lit ''1000''" "Fin 1100", THEN conjunct2, THEN conjunct1]
      change_and_shortage [of example_platform "lit ''1200''" "Fin 1100", THEN conjunct1]
      change_and_shortage [of example_platform "lit ''1200''" "Fin 1100", THEN conjunct2, THEN conjunct1]
      change_and_shortage [of example_platform "lit ''abc''" "Fin 1100", THEN conjunct1]
      change_and_shortage [of example_platform "lit ''abc''" "Fin 1100", THEN conjunct2, THEN conjunct1]
      change_and_shortage [of example_platform "lit ''1200''" "Fin (10001 / 8)", THEN conjunct1]
      change_and_shortage [of example_platform "lit ''1200''" "Fin (10001 / 8)", THEN conjunct2, THEN conjunct1]
      change_and_shortage [of example_platform "lit ''1000''" "Fin (7999 / 8)", THEN conjunct1]
      change_and_shortage [of example_platform "lit ''1000''" "Fin (7999 / 8)", THEN conjunct2, THEN conjunct1]
    by (simp add: parseMoney_example_1000 parseMoney_example_1200 parseMoney_example_abc
        a b c d d' e r rnd_two_decimal_examples)
  show ?thesis using v k1 k2 by (simp only: conj_assoc simp_thms)
qed

text \<open>
  C3. For every input string, \<open>parseMoney\<close> returns what the branch-free reference
  returns: the branch taken when the pattern does not match and the branch taken when it
  matches compute the same result, so the pattern check has no effect.
\<close>

theorem parseMoney_is_reference:
  "parseMoney P input = parseMoney_reference P input"
  by (simp add: parseMoney_def parseMoney_reference_def Let_def)

theorem parseMoney_is_reference_witness:
  "parseMoney_reference example_platform (lit ''1000'') = Some (Fin 1000)
   \<and> parseMoney_reference example_platform (lit ''abc'') = None"
  using parseMoney_is_reference [of example_platform "lit ''1000''"]
    parseMoney_is_reference [of example_platform "lit ''abc''"]
  by (simp add: parseMoney_example_1000 parseMoney_example_abc)

section \<open>The cart store\<close>

lemma bindE_Inr_iff: "bindE m f = Inr y \<longleftrightarrow> (\<exists>a. m = Inr a \<and> f a = Inr y)"
  by (cases m) (simp_all add: bindE_def)

lemma not_le_zero_integer:
  "Number_isInteger n \<Longrightarrow> \<not> jsle n (Fin 0) \<longleftrightarrow> jsgt n (Fin 0)"
  by (cases n) auto

lemma positive_not_le_zero: "jsgt n (Fin 0) \<Longrightarrow> \<not> jsle n (Fin 0)"
  by (cases n) auto

lemma not_le_zero_finite:
  "Number_isFinite n \<Longrightarrow> \<not> jsle n (Fin 0) \<longleftrightarrow> jsgt n (Fin 0)"
  by (cases n) auto

lemma taxRate_part:
  "(if taxRateRaw \<noteq> Undefined
    then bindE (ToNumber P taxRateRaw)
           (\<lambda>n. if Number_isFinite n then bindE (ToNumber P taxRateRaw) (\<lambda>m. Inr (Some m))
                else Inr None)
    else Inr None) = Inr t
   \<longleftrightarrow> (if taxRateRaw = Undefined then t = None
        else (\<exists>n. ToNumber P taxRateRaw = Inr n \<and> t = (if Number_isFinite n then Some n else None)))"
  by (cases "ToNumber P taxRateRaw") (auto simp: bindE_def)

lemma CartItem_eq_iff:
  "\<lparr>productId = p, name = n, quantity = q, unitPrice = u, sku = s, taxRate = t\<rparr> = (item :: CartItem)
   \<longleftrightarrow> productId item = p \<and> name item = n \<and> quantity item = q \<and> unitPrice item = u
        \<and> sku item = s \<and> taxRate item = t"
  by (cases item) auto

lemma sanitizeCartItem_Some_iff:
  assumes "typeof_object input" "input \<noteq> Null"
  shows "sanitizeCartItem P input = Inr (Some item) \<longleftrightarrow>
    (\<exists>p q u t.
       ToNumber P (nullish (get_prop input (lit ''productId'')) (get_prop input (lit ''product_id'')))
         = Inr p
       \<and> ToNumber P (get_prop input (lit ''quantity'')) = Inr q
       \<and> ToNumber P (nullish (nullish (get_prop input (lit ''unitPrice''))
                                  (get_prop input (lit ''unit_price'')))
                         (get_prop input (lit ''price''))) = Inr u
       \<and> Number_isInteger p \<and> \<not> jsle p (Fin 0)
       \<and> Number_isFinite q \<and> \<not> jsle q (Fin 0)
       \<and> Number_isFinite u
       \<and> (let taxRateRaw = nullish (get_prop input (lit ''taxRate'')) (get_prop input (lit ''tax_rate''))
           in if taxRateRaw \<noteq> Undefined
              then bindE (ToNumber P taxRateRaw)
                     (\<lambda>n. if Number_isFinite n then bindE (ToNumber P taxRateRaw) (\<lambda>m. Inr (Some m))
                          else Inr None)
              else Inr None) = Inr t
       \<and> \<lparr>productId = p,
           name = (case nullish (get_prop input (lit ''name'')) (get_prop input (lit ''productName''))
                   of Str s \<Rightarrow> s | _ \<Rightarrow> []),
           quantity = q, unitPrice = u,
           sku = (case nullish (get_prop input (lit ''sku'')) (get_prop input (lit ''productSku''))
                  of Str s \<Rightarrow> Some s | _ \<Rightarrow> None),
           taxRate = t\<rparr> = item)"
  using assms
  by (simp add: sanitizeCartItem_def Let_def bindE_Inr_iff) blast

text \<open>
  C4. \<open>sanitizeCartItem\<close> yields an item exactly when the record is a non-null object
  whose \<open>productId\<close> (from \<open>productId\<close> or \<open>product_id\<close>, coerced to a number) is a
  positive integer, whose \<open>quantity\<close> coerces to a finite number greater than 0 and whose
  \<open>unitPrice\<close> (from \<open>unitPrice\<close>, \<open>unit_price\<close> or \<open>price\<close>, in that order) coerces to a
  finite number of any sign, and the coercion of a tax rate that is not \<open>undefined\<close> does
  not throw. The item then has these three numbers; its \<open>name\<close> is the stored text
  (from \<open>name\<close> or \<open>productName\<close>) or the empty string, its \<open>sku\<close> is kept only if it is a
  text, and its \<open>taxRate\<close> only if it converts to a finite number.
\<close>

theorem sanitizeCartItem_accepts:
  "sanitizeCartItem P input = Inr (Some item) \<longleftrightarrow>
     typeof_object input \<and> input \<noteq> Null
     \<and> ToNumber P (nullish (get_prop input (lit ''productId'')) (get_prop input (lit ''product_id'')))
         = Inr (productId item)
     \<and> Number_isInteger (productId item) \<and> jsgt (productId item) (Fin 0)
     \<and> ToNumber P (get_prop input (lit ''quantity'')) = Inr (quantity item)
     \<and> Number_isFinite (quantity item) \<and> jsgt (quantity item) (Fin 0)
     \<and> ToNumber P (nullish (nullish (get_prop input (lit ''unitPrice''))
                                (get_prop input (lit ''unit_price'')))
                       (get_prop input (lit ''price'')))
         = Inr (unitPrice item)
     \<and> Number_isFinite (unitPrice item)
     \<and> name item = (case nullish (get_prop input (lit ''name'')) (get_prop input (lit ''productName''))
                     of Str s \<Rightarrow> s | _ \<Rightarrow> [])
     \<and> sku item = (case nullish (get_prop input (lit ''sku'')) (get_prop input (lit ''productSku''))
                    of Str s \<Rightarrow> Some s | _ \<Rightarrow> None)
     \<and> (let taxRateRaw = nullish (get_prop input (lit ''taxRate'')) (get_prop input (lit ''tax_rate''))
         in if taxRateRaw = Undefined then taxRate item = None
            else (\<exists>n. ToNumber P taxRateRaw = Inr n
                      \<and> taxRate item = (if Number_isFinite n then Some n else None)))"
proof (cases "typeof_object input \<and> input \<noteq> Null")
  case False
  then show ?thesis by (auto simp: sanitizeCartItem_def)
next
  case True
  then have t: "typeof_object input" "input \<noteq> Null" by simp_all
  show ?thesis
    unfolding sanitizeCartItem_Some_iff [OF t] Let_def taxRate_part CartItem_eq_iff
    using True by (auto simp: not_le_zero_integer not_le_zero_finite dest: positive_not_le_zero)
qed

theorem sanitizeCartItem_accepts_witness:
  "sanitizeCartItem example_platform example_raw_item
     = Inr (Some \<lparr>productId = Fin 7, name = [], quantity = Fin 2, unitPrice = Fin (7 / 2),
                  sku = None, taxRate = Some (Fin 10)\<rparr>)"
  using sanitizeCartItem_accepts [of example_platform example_raw_item
          "\<lparr>productId = Fin 7, name = [], quantity = Fin 2, unitPrice = Fin (7 / 2),
            sku = None, taxRate = Some (Fin 10)\<rparr>"]
  by (simp add: example_raw_item_def nullish_def lit_def Let_def)

lemma integer_finite: "Number_isInteger n \<Longrightarrow> Number_isFinite n"
  by (cases n) simp_all

lemma CartItem_js_roundtrip:
  assumes "sanitized it"
  shows "json_roundtrip (CartItem_js it) =
    Obj ([(lit ''productId'', Num (productId it)), (lit ''name'', Str (name it)),
          (lit ''quantity'', Num (quantity it)), (lit ''unitPrice'', Num (unitPrice it))]
         @ (case sku it of None \<Rightarrow> [] | Some s \<Rightarrow> [(lit ''sku'', Str s)])
         @ (case taxRate it of None \<Rightarrow> [] | Some t \<Rightarrow> [(lit ''taxRate'', Num t)]))"
  using assms
  by (auto simp: CartItem_js_def sanitized_def integer_finite split: option.splits)

lemma roundtrip_props:
  fixes it :: CartItem
  defines "obj \<equiv> Obj ([(lit ''productId'', Num (productId it)), (lit ''name'', Str (name it)),
          (lit ''quantity'', Num (quantity it)), (lit ''unitPrice'', Num (unitPrice it))]
         @ (case sku it of None \<Rightarrow> [] | Some s \<Rightarrow> [(lit ''sku'', Str s)])
         @ (case taxRate it of None \<Rightarrow> [] | Some t \<Rightarrow> [(lit ''taxRate'', Num t)]))"
  shows "get_prop obj (lit ''productId'') = Num (productId it)"
    and "get_prop obj (lit ''quantity'') = Num (quantity it)"
    and "get_prop obj (lit ''unitPrice'') = Num (unitPrice it)"
    and "get_prop obj (lit ''name'') = Str (name it)"
    and "get_prop obj (lit ''sku'') = (case sku it of None \<Rightarrow> Undefined | Some s \<Rightarrow> Str s)"
    and "get_prop obj (lit ''productSku'') = Undefined"
    and "get_prop obj (lit ''taxRate'') = (case taxRate it of None \<Rightarrow> Undefined | Some t \<Rightarrow> Num t)"
    and "get_prop obj (lit ''tax_rate'') = Undefined"
    and "typeof_object obj" and "obj \<noteq> Null"
  unfolding obj_def
  by (simp_all add: lit_def split: option.splits)

lemma sanitizeCartItem_roundtrip:
  assumes "sanitized it"
  shows "sanitizeCartItem P (json_roundtrip (CartItem_js it)) = Inr (Some it)"
proof -
  have p: "Number_isInteger (productId it)" "\<not> jsle (productId it) (Fin 0)"
    using assms by (auto simp: sanitized_def dest: positive_not_le_zero)
  have q: "Number_isFinite (quantity it)" "\<not> jsle (quantity it) (Fin 0)"
    using assms by (auto simp: sanitized_def dest: positive_not_le_zero)
  have u: "Number_isFinite (unitPrice it)"
    using assms by (simp add: sanitized_def)
  have t: "(case taxRate it of None \<Rightarrow> True | Some t \<Rightarrow> Number_isFinite t)"
    using assms by (simp add: sanitized_def)
  have "sanitizeCartItem P (json_roundtrip (CartItem_js it))
      = Inr (Some \<lparr>productId = productId it, name = name it, quantity = quantity it,
                   unitPrice = unitPrice it, sku = sku it, taxRate = taxRate it\<rparr>)"
    unfolding CartItem_js_roundtrip [OF assms] sanitizeCartItem_def Let_def roundtrip_props
    using p q u t
    by (cases "sku it"; cases "taxRate it") (simp_all add: nullish_def bindE_def)
  then show ?thesis by simp
qed

lemma sanitize_map_roundtrip:
  assumes "\<forall>it\<in>set items. sanitized it"
  shows "sanitize_map P (map (\<lambda>it. json_roundtrip (CartItem_js it)) items) = Inr (map Some items)"
  using assms by (induction items) (simp_all add: sanitizeCartItem_roundtrip bindE_def)

lemma filter_Boolean_Some: "filter_Boolean (map Some items) = items"
  by (induction items) simp_all

lemma CartItem_js_defined: "CartItem_js it \<noteq> Undefined"
  by (simp add: CartItem_js_def)

text \<open>
  C10. In a browser, for a list of cart items that satisfy the sanitization invariant,
  \<open>readCartItems\<close> right after \<open>writeCartItems\<close> returns the list that was written:
  sanitization on the read path drops no item and changes no field. The platform is
  taken to parse the text that \<open>JSON.stringify\<close> made of the list back to the list (the
  properties that are \<open>undefined\<close> dropped), and to reject the empty text.
\<close>

theorem read_after_write:
  assumes "isBrowser e"
    and "\<forall>it\<in>set items. sanitized it"
    and "JSON_parse P (JSON_stringify P (Arr (map CartItem_js items)))
           = Some (json_roundtrip (Arr (map CartItem_js items)))"
    and "JSON_parse P [] = None"
  shows "readCartItems P (writeCartItems P items e) = items"
proof -
  let ?text = "JSON_stringify P (Arr (map CartItem_js items))"
  have nonempty: "?text \<noteq> []" using assms(3,4) by auto
  have stored: "localStorage (writeCartItems P items e) CART_STORAGE_KEY = Some ?text"
    and browser: "isBrowser (writeCartItems P items e)"
    using assms(1) by (simp_all add: writeCartItems_def emitCartChange_def dispatchEvent_def)
  have parsed: "JSON_parse P ?text = Some (Arr (map (\<lambda>it. json_roundtrip (CartItem_js it)) items))"
    using assms(3) by (simp add: CartItem_js_defined comp_def)
  show ?thesis
    using nonempty
    by (simp add: readCartItems_def browser stored parsed sanitize_map_roundtrip [OF assms(2)]
        filter_Boolean_Some)
qed

lemma example_item_sanitized: "sanitized example_item"
  by (simp add: sanitized_def example_item_def)

lemma example_cart_roundtrip:
  "json_roundtrip (Arr (map CartItem_js [example_item])) = example_cart_parsed"
  by (simp add: CartItem_js_def example_item_def example_cart_parsed_def)

theorem read_after_write_witness:
  "readCartItems example_platform (writeCartItems example_platform [example_item] example_env)
     = [example_item]"
proof -
  have b: "isBrowser example_env" by (simp add: example_env_def)
  have s: "\<forall>it\<in>set [example_item]. sanitized it" by (simp add: example_item_sanitized)
  have j: "JSON_parse example_platform
             (JSON_stringify example_platform (Arr (map CartItem_js [example_item])))
           = Some (json_roundtrip (Arr (map CartItem_js [example_item])))"
    unfolding example_cart_roundtrip
    by (simp add: example_platform_def example_JSON_stringify_def example_JSON_parse_def)
  have n: "JSON_parse example_platform [] = None"
    by (simp add: example_platform_def example_JSON_parse_def example_cart_json_def lit_def)
  show ?thesis by (rule read_after_write [OF b s j n])
qed

section \<open>The cart totals\<close>

lemma reduce_foldl: "reduce f acc xs = foldl f acc xs"
  by (induction xs arbitrary: acc) simp_all

lemma roundCurrency_nudge_then_scale: "roundCurrency = round2_nudge_then_scale"
  by (rule ext) (simp add: roundCurrency_def round2_nudge_then_scale_def)

text \<open>
  C2, as amended. For every list of cart items, \<open>calculateCartTotals\<close> is the left fold
  that starts from the all-zero accumulator and, for each item in order, rounds the line
  subtotal \<open>unitPrice * quantity\<close> to 2 decimals, rounds the line tax (the line subtotal
  times the tax rate, or 0, over 100) to 2 decimals, and rounds each of the running
  subtotal, tax and total to 2 decimals after adding the line, where rounding to 2
  decimals is: add the machine epsilon to the value, multiply the sum by 100, round to the
  nearest integer, divide by 100.
\<close>

theorem calculateCartTotals_is_fold:
  "calculateCartTotals items = foldl (totals_step round2_nudge_then_scale) zero_totals items"
proof -
  have "(\<lambda>accumulator item.
          let lineSubtotal = roundCurrency (fmul (unitPrice item) (quantity item));
              lineTax = roundCurrency
                          (fmul lineSubtotal
                             (fdiv (case taxRate item of None \<Rightarrow> Fin 0 | Some t \<Rightarrow> t) (Fin 100)))
          in \<lparr>subtotal = roundCurrency (fadd (subtotal accumulator) lineSubtotal),
              tax = roundCurrency (fadd (tax accumulator) lineTax),
              total' = roundCurrency (fadd (fadd (total' accumulator) lineSubtotal) lineTax)\<rparr>)
        = totals_step round2_nudge_then_scale"
    by (intro ext) (simp add: totals_step_def roundCurrency_nudge_then_scale)
  then show ?thesis
    by (simp add: calculateCartTotals_def reduce_foldl zero_totals_def)
qed

lemma example_price_value: "example_price = Fin (1131529406376837 / 1125899906842624)"
  unfolding example_price_def
  using rnd_eval [of "0" "201 / 200" "4526117625507348"] by (simp add: pow2_def)

lemma roundCurrency_example_1005_price:
  "roundCurrency (Fin (1131529406376837 / 1125899906842624)) = Fin (4548635623644201 / 4503599627370496)"
proof -
  have s1: "fadd (Fin (1131529406376837 / 1125899906842624)) Number_EPSILON = Fin (4526117625507349 / 4503599627370496)"
    using rnd_eval [of "0" "4526117625507349 / 4503599627370496" "4526117625507349"]
    by (simp add: pow2_def Number_EPSILON_def)
  have s2: "fmul (Fin (4526117625507349 / 4503599627370496)) (Fin 100) = Fin (7072058789855233 / 70368744177664)"
    using rnd_eval [of "6" "113152940637683725 / 1125899906842624" "7072058789855233"]
    by (simp add: pow2_def)
  have s3: "Math_round (Fin (7072058789855233 / 70368744177664)) = Fin (101)"
    by (simp add: floor_rat_numeral_div)
  have s4: "fdiv (Fin (101)) (Fin 100) = Fin (4548635623644201 / 4503599627370496)"
    using rnd_eval [of "0" "101 / 100" "4548635623644201"]
    by (simp add: pow2_def)
  show ?thesis unfolding roundCurrency_def s1 s2 s3 s4 ..
qed

lemma roundCurrency_example_1005_subtotal:
  "roundCurrency (Fin (4548635623644201 / 4503599627370496)) = Fin (4548635623644201 / 4503599627370496)"
proof -
  have s1: "fadd (Fin (4548635623644201 / 4503599627370496)) Number_EPSILON = Fin (2274317811822101 / 2251799813685248)"
    using rnd_eval [of "0" "2274317811822101 / 2251799813685248" "4548635623644202"]
    by (simp add: pow2_def Number_EPSILON_def)
  have s2: "fmul (Fin (2274317811822101 / 2251799813685248)) (Fin 100) = Fin (3553621580972033 / 35184372088832)"
    using rnd_eval [of "6" "56857945295552525 / 562949953421312" "7107243161944066"]
    by (simp add: pow2_def)
  have s3: "Math_round (Fin (3553621580972033 / 35184372088832)) = Fin (101)"
    by (simp add: floor_rat_numeral_div)
  have s4: "fdiv (Fin (101)) (Fin 100) = Fin (4548635623644201 / 4503599627370496)"
    using rnd_eval [of "0" "101 / 100" "4548635623644201"]
    by (simp add: pow2_def)
  show ?thesis unfolding roundCurrency_def s1 s2 s3 s4 ..
qed

lemma scale_then_nudge_example_1005_price:
  "round2_scale_then_nudge Number_EPSILON (Fin (1131529406376837 / 1125899906842624)) = Fin (1)"
proof -
  have s1: "fmul (Fin (1131529406376837 / 1125899906842624)) (Fin 100) = Fin (7072058789855231 / 70368744177664)"
    using rnd_eval [of "6" "28288235159420925 / 281474976710656" "7072058789855231"]
    by (simp add: pow2_def)
  have s2: "fadd (Fin (7072058789855231 / 70368744177664)) Number_EPSILON = Fin (7072058789855231 / 70368744177664)"
    using rnd_eval [of "6" "452611762550734785 / 4503599627370496" "7072058789855231"]
    by (simp add: pow2_def Number_EPSILON_def)
  have s3: "Math_round (Fin (7072058789855231 / 70368744177664)) = Fin (100)"
    by (simp add: floor_rat_numeral_div)
  have s4: "fdiv (Fin (100)) (Fin 100) = Fin (1)"
    using rnd_eval [of "0" "1" "4503599627370496"]
    by (simp add: pow2_def)
  show ?thesis unfolding round2_scale_then_nudge_def s1 s2 s3 s4 ..
qed

lemma scale_then_nudge_example_1005_subtotal:
  "round2_scale_then_nudge Number_EPSILON (Fin (1)) = Fin (1)"
proof -
  have s1: "fmul (Fin (1)) (Fin 100) = Fin (100)"
    using rnd_eval [of "6" "100" "7036874417766400"]
    by (simp add: pow2_def)
  have s2: "fadd (Fin (100)) Number_EPSILON = Fin (100)"
    using rnd_eval [of "6" "450359962737049601 / 4503599627370496" "7036874417766400"]
    by (simp add: pow2_def Number_EPSILON_def)
  have s3: "Math_round (Fin (100)) = Fin (100)"
    by (simp add: floor_rat_numeral_div)
  have s4: "fdiv (Fin (100)) (Fin 100) = Fin (1)"
    using rnd_eval [of "0" "1" "4503599627370496"]
    by (simp add: pow2_def)
  show ?thesis unfolding round2_scale_then_nudge_def s1 s2 s3 s4 ..
qed

lemma example_1005_line: "fmul example_price (Fin 1) = Fin (1131529406376837 / 1125899906842624)"
  unfolding example_price_value
  using rnd_eval [of "0" "1131529406376837 / 1125899906842624" "4526117625507348"] by (simp add: pow2_def)

lemma example_1005_sum: "fadd (Fin 0) (Fin (4548635623644201 / 4503599627370496)) = Fin (4548635623644201 / 4503599627370496)"
  using rnd_eval [of "0" "4548635623644201 / 4503599627370496" "4548635623644201"] by (simp add: pow2_def)

lemma example_1005_sum_scale_then_nudge: "fadd (Fin 0) (Fin (1)) = Fin (1)"
  using rnd_eval [of "0" "1" "4503599627370496"] by (simp add: pow2_def)

lemma example_1005_subtotal:
  "subtotal (calculateCartTotals [example_item_1005]) = Fin (4548635623644201 / 4503599627370496)"
proof -
  have "subtotal (calculateCartTotals [example_item_1005])
      = roundCurrency (fadd (Fin 0) (roundCurrency (fmul example_price (Fin 1))))"
    by (simp add: calculateCartTotals_def Let_def example_item_1005_def)
  then show ?thesis
    unfolding example_1005_line roundCurrency_example_1005_price example_1005_sum roundCurrency_example_1005_subtotal .
qed

lemma example_1005_subtotal_scale_then_nudge:
  "subtotal (foldl (totals_step (round2_scale_then_nudge Number_EPSILON)) zero_totals [example_item_1005])
     = Fin (1)"
proof -
  have "subtotal (foldl (totals_step (round2_scale_then_nudge Number_EPSILON)) zero_totals [example_item_1005])
      = round2_scale_then_nudge Number_EPSILON
          (fadd (Fin 0) (round2_scale_then_nudge Number_EPSILON (fmul example_price (Fin 1))))"
    by (simp add: totals_step_def zero_totals_def Let_def example_item_1005_def)
  then show ?thesis
    unfolding example_1005_line scale_then_nudge_example_1005_price example_1005_sum_scale_then_nudge
      scale_then_nudge_example_1005_subtotal .
qed

lemma example_price_2135_value: "example_price_2135 = Fin (1201898150554501 / 562949953421312)"
  unfolding example_price_2135_def
  using rnd_eval [of "1" "427 / 200" "4807592602218004"] by (simp add: pow2_def)

lemma roundCurrency_example_2135_price:
  "roundCurrency (Fin (1201898150554501 / 562949953421312)) = Fin (2398166801574789 / 1125899906842624)"
proof -
  have s1: "fadd (Fin (1201898150554501 / 562949953421312)) Number_EPSILON = Fin (1201898150554501 / 562949953421312)"
    using rnd_eval_tie [of "1" "9615185204436009 / 4503599627370496" "4807592602218004"]
    by (simp add: pow2_def Number_EPSILON_def)
  have s2: "fmul (Fin (1201898150554501 / 562949953421312)) (Fin 100) = Fin (7511863440965631 / 35184372088832)"
    using rnd_eval [of "7" "30047453763862525 / 140737488355328" "7511863440965631"]
    by (simp add: pow2_def)
  have s3: "Math_round (Fin (7511863440965631 / 35184372088832)) = Fin (213)"
    by (simp add: floor_rat_numeral_div)
  have s4: "fdiv (Fin (213)) (Fin 100) = Fin (2398166801574789 / 1125899906842624)"
    using rnd_eval [of "1" "213 / 100" "4796333603149578"]
    by (simp add: pow2_def)
  show ?thesis unfolding roundCurrency_def s1 s2 s3 s4 ..
qed

lemma roundCurrency_example_2135_subtotal:
  "roundCurrency (Fin (2398166801574789 / 1125899906842624)) = Fin (2398166801574789 / 1125899906842624)"
proof -
  have s1: "fadd (Fin (2398166801574789 / 1125899906842624)) Number_EPSILON = Fin (2398166801574789 / 1125899906842624)"
    using rnd_eval_tie [of "1" "9592667206299157 / 4503599627370496" "4796333603149578"]
    by (simp add: pow2_def Number_EPSILON_def)
  have s2: "fmul (Fin (2398166801574789 / 1125899906842624)) (Fin 100) = Fin (213)"
    using rnd_eval [of "7" "59954170039369725 / 281474976710656" "7494271254921216"]
    by (simp add: pow2_def)
  have s3: "Math_round (Fin (213)) = Fin (213)"
    by (simp add: floor_rat_numeral_div)
  have s4: "fdiv (Fin (213)) (Fin 100) = Fin (2398166801574789 / 1125899906842624)"
    using rnd_eval [of "1" "213 / 100" "4796333603149578"]
    by (simp add: pow2_def)
  show ?thesis unfolding roundCurrency_def s1 s2 s3 s4 ..
qed

lemma scale_then_nudge_example_2135_price:
  "round2_scale_then_nudge (Fin (100 / 2 ^ 52)) (Fin (1201898150554501 / 562949953421312)) = Fin (4818851601286431 / 2251799813685248)"
proof -
  have s1: "fmul (Fin (1201898150554501 / 562949953421312)) (Fin 100) = Fin (7511863440965631 / 35184372088832)"
    using rnd_eval [of "7" "30047453763862525 / 140737488355328" "7511863440965631"]
    by (simp add: pow2_def)
  have s2: "fadd (Fin (7511863440965631 / 35184372088832)) (Fin (100 / 2 ^ 52)) = Fin (427 / 2)"
    using rnd_eval [of "7" "240379630110900217 / 1125899906842624" "7511863440965632"]
    by (simp add: pow2_def Number_EPSILON_def)
  have s3: "Math_round (Fin (427 / 2)) = Fin (214)"
    by (simp add: floor_rat_numeral_div)
  have s4: "fdiv (Fin (214)) (Fin 100) = Fin (4818851601286431 / 2251799813685248)"
    using rnd_eval [of "1" "107 / 50" "4818851601286431"]
    by (simp add: pow2_def)
  show ?thesis unfolding round2_scale_then_nudge_def s1 s2 s3 s4 ..
qed

lemma scale_then_nudge_example_2135_subtotal:
  "round2_scale_then_nudge (Fin (100 / 2 ^ 52)) (Fin (4818851601286431 / 2251799813685248)) = Fin (4818851601286431 / 2251799813685248)"
proof -
  have s1: "fmul (Fin (4818851601286431 / 2251799813685248)) (Fin 100) = Fin (214)"
    using rnd_eval [of "7" "120471290032160775 / 562949953421312" "7529455627010048"]
    by (simp add: pow2_def)
  have s2: "fadd (Fin (214)) (Fin (100 / 2 ^ 52)) = Fin (7529455627010049 / 35184372088832)"
    using rnd_eval [of "7" "240942580064321561 / 1125899906842624" "7529455627010049"]
    by (simp add: pow2_def Number_EPSILON_def)
  have s3: "Math_round (Fin (7529455627010049 / 35184372088832)) = Fin (214)"
    by (simp add: floor_rat_numeral_div)
  have s4: "fdiv (Fin (214)) (Fin 100) = Fin (4818851601286431 / 2251799813685248)"
    using rnd_eval [of "1" "107 / 50" "4818851601286431"]
    by (simp add: pow2_def)
  show ?thesis unfolding round2_scale_then_nudge_def s1 s2 s3 s4 ..
qed

lemma example_2135_line: "fmul example_price_2135 (Fin 1) = Fin (1201898150554501 / 562949953421312)"
  unfolding example_price_2135_value
  using rnd_eval [of "1" "1201898150554501 / 562949953421312" "4807592602218004"] by (simp add: pow2_def)

lemma example_2135_sum: "fadd (Fin 0) (Fin (2398166801574789 / 1125899906842624)) = Fin (2398166801574789 / 1125899906842624)"
  using rnd_eval [of "1" "2398166801574789 / 1125899906842624" "4796333603149578"] by (simp add: pow2_def)

lemma example_2135_sum_scale_then_nudge: "fadd (Fin 0) (Fin (4818851601286431 / 2251799813685248)) = Fin (4818851601286431 / 2251799813685248)"
  using rnd_eval [of "1" "4818851601286431 / 2251799813685248" "4818851601286431"] by (simp add: pow2_def)

lemma example_2135_subtotal:
  "subtotal (calculateCartTotals [example_item_2135]) = Fin (2398166801574789 / 1125899906842624)"
proof -
  have "subtotal (calculateCartTotals [example_item_2135])
      = roundCurrency (fadd (Fin 0) (roundCurrency (fmul example_price_2135 (Fin 1))))"
    by (simp add: calculateCartTotals_def Let_def example_item_2135_def)
  then show ?thesis
    unfolding example_2135_line roundCurrency_example_2135_price example_2135_sum roundCurrency_example_2135_subtotal .
qed

lemma example_2135_subtotal_scale_then_nudge:
  "subtotal (foldl (totals_step (round2_scale_then_nudge (Fin (100 / 2 ^ 52)))) zero_totals [example_item_2135])
     = Fin (4818851601286431 / 2251799813685248)"
proof -
  have "subtotal (foldl (totals_step (round2_scale_then_nudge (Fin (100 / 2 ^ 52)))) zero_totals [example_item_2135])
      = round2_scale_then_nudge (Fin (100 / 2 ^ 52))
          (fadd (Fin 0) (round2_scale_then_nudge (Fin (100 / 2 ^ 52)) (fmul example_price_2135 (Fin 1))))"
    by (simp add: totals_step_def zero_totals_def Let_def example_item_2135_def)
  then show ?thesis
    unfolding example_2135_line scale_then_nudge_example_2135_price example_2135_sum_scale_then_nudge
      scale_then_nudge_example_2135_subtotal .
qed

theorem calculateCartTotals_is_fold_witness:
  "subtotal (foldl (totals_step round2_nudge_then_scale) zero_totals [example_item_1005])
     = Fin (4548635623644201 / 4503599627370496)"
  using calculateCartTotals_is_fold [of "[example_item_1005]"] example_1005_subtotal
  by simp

text \<open>
  C2 as stated fails: a rounding that multiplies by 100 before it adds the nudge is not
  the rounding of the source. With the machine epsilon as the nudge, for one item at the
  price 1.005 the source computes the subtotal 1.01 (its binary64 value) and the fold of
  the claim computes 1. With 100 times the machine epsilon as the nudge, for one item at
  the price 2.135 the source computes 2.13 and the fold of the claim 2.14.
\<close>

theorem calculateCartTotals_counterexample:
  "subtotal (calculateCartTotals [example_item_1005]) = Fin (4548635623644201 / 4503599627370496)
   \<and> subtotal (foldl (totals_step (round2_scale_then_nudge Number_EPSILON)) zero_totals
                 [example_item_1005]) = Fin 1
   \<and> calculateCartTotals [example_item_1005]
       \<noteq> foldl (totals_step (round2_scale_then_nudge Number_EPSILON)) zero_totals [example_item_1005]
   \<and> subtotal (calculateCartTotals [example_item_2135]) = Fin (2398166801574789 / 1125899906842624)
   \<and> subtotal (foldl (totals_step (round2_scale_then_nudge (Fin (100 / 2 ^ 52)))) zero_totals
                 [example_item_2135]) = Fin (4818851601286431 / 2251799813685248)
   \<and> calculateCartTotals [example_item_2135]
       \<noteq> foldl (totals_step (round2_scale_then_nudge (Fin (100 / 2 ^ 52)))) zero_totals
           [example_item_2135]"
proof -
  have "subtotal (calculateCartTotals [example_item_1005])
      \<noteq> subtotal (foldl (totals_step (round2_scale_then_nudge Number_EPSILON)) zero_totals
                     [example_item_1005])"
    unfolding example_1005_subtotal example_1005_subtotal_scale_then_nudge by simp
  then have a: "calculateCartTotals [example_item_1005]
      \<noteq> foldl (totals_step (round2_scale_then_nudge Number_EPSILON)) zero_totals [example_item_1005]"
    by auto
  have "subtotal (calculateCartTotals [example_item_2135])
      \<noteq> subtotal (foldl (totals_step (round2_scale_then_nudge (Fin (100 / 2 ^ 52)))) zero_totals
                     [example_item_2135])"
    unfolding example_2135_subtotal example_2135_subtotal_scale_then_nudge by simp
  then have b: "calculateCartTotals [example_item_2135]
      \<noteq> foldl (totals_step (round2_scale_then_nudge (Fin (100 / 2 ^ 52)))) zero_totals
          [example_item_2135]"
    by auto
  show ?thesis
    using a b example_1005_subtotal example_1005_subtotal_scale_then_nudge
      example_2135_subtotal example_2135_subtotal_scale_then_nudge
    by simp
qed

end
